theory Spec2Isabelle
  imports Main
begin

section \<open>Data model\<close>

text \<open>
  The build pipeline of the EduManage backend, embedded from the build service
  (class BuildService), the build controller, the download controller, the queue
  manager and the Build schema.

  Documents are records and collections are lists in insertion order. Instants
  (milliseconds since the epoch) are integers, ObjectIds are natural numbers,
  \<^verbatim>\<open>null\<close> and \<^verbatim>\<open>undefined\<close> fields are \<open>None\<close>, and a thrown \<^verbatim>\<open>Error\<close> is
  \<open>Inl message\<close>. Reads and writes of the database themselves do not fail.
  The fields \<^verbatim>\<open>files\<close> and \<^verbatim>\<open>buildLogs\<close> of the schema are never written by the code
  and are left out, as is the \<^verbatim>\<open>updatedAt\<close> stamp that the persistence library maintains.
\<close>

datatype build_status = queued | processing | completed | failed | cancelled

record stage =
  name :: string
  stage_status :: string
  stage_startedAt :: int
  stage_completedAt :: "int option"
  stage_error :: "string option"

record build_metadata =
  buildTime :: int
  fileSize :: nat
  version :: string
  dependencies :: "string list"

record build =
  buildId :: string
  order :: nat
  school :: nat
  user :: nat
  package :: string
  status :: build_status
  progress :: nat
  stages :: "stage list"
  downloadUrl :: "string option"
  downloadCount :: nat
  lastDownloadAt :: "int option"
  error :: "string option"
  startedAt :: "int option"
  completedAt :: "int option"
  expiresAt :: "int option"
  metadata :: "build_metadata option"
  createdAt :: int

text \<open>
  The Order and School models are not part of the sources; the records hold the fields
  the pipeline and the controllers read or write.
\<close>

record order_doc =
  order_id :: nat
  orderId :: string
  order_user :: nat
  payment_status :: string
  order_status :: string
  buildStatus :: "string option"
  order_downloadUrl :: "string option"
  order_school :: "nat option"
  package_type :: string

record school_doc =
  school_id :: nat
  school_name :: string
  createdBy_email :: "string option"
  school_status :: string
  meta_buildId :: "string option"
  meta_downloadUrl :: "string option"
  meta_lastUpdate :: "int option"

record world =
  builds :: "build list"
  orders :: "order_doc list"
  schools :: "school_doc list"
  jobs :: "(string \<times> string) list"

datatype response =
  Json nat bool string "string option"
| Redirect string
| Next string

section \<open>Persistence\<close>

text \<open>\<^verbatim>\<open>updateOne\<close>: the first document that matches the filter is updated.\<close>

fun updateOne :: "('a \<Rightarrow> bool) \<Rightarrow> ('a \<Rightarrow> 'a) \<Rightarrow> 'a list \<Rightarrow> 'a list" where
  "updateOne p f [] = []"
| "updateOne p f (x # xs) = (if p x then f x # xs else x # updateOne p f xs)"

definition findBuild :: "string \<Rightarrow> world \<Rightarrow> build option" where
  "findBuild bid w = find (\<lambda>b. buildId b = bid) (builds w)"

definition findOrderById :: "nat \<Rightarrow> world \<Rightarrow> order_doc option" where
  "findOrderById oid w = find (\<lambda>ord. order_id ord = oid) (orders w)"

definition findSchoolById :: "nat \<Rightarrow> world \<Rightarrow> school_doc option" where
  "findSchoolById sid w = find (\<lambda>s. school_id s = sid) (schools w)"

text \<open>
  \<^verbatim>\<open>build.save()\<close> on a loaded document writes the paths assigned since the last save
  to the stored document; \<open>f\<close> is that assignment.
\<close>

definition saveBuild :: "string \<Rightarrow> (build \<Rightarrow> build) \<Rightarrow> world \<Rightarrow> world" where
  "saveBuild bid f w = w\<lparr>builds := updateOne (\<lambda>b. buildId b = bid) f (builds w)\<rparr>"

definition Order_findByIdAndUpdate :: "nat \<Rightarrow> (order_doc \<Rightarrow> order_doc) \<Rightarrow> world \<Rightarrow> world" where
  "Order_findByIdAndUpdate oid f w =
     w\<lparr>orders := updateOne (\<lambda>ord. order_id ord = oid) f (orders w)\<rparr>"

definition School_findByIdAndUpdate :: "nat \<Rightarrow> (school_doc \<Rightarrow> school_doc) \<Rightarrow> world \<Rightarrow> world" where
  "School_findByIdAndUpdate sid f w =
     w\<lparr>schools := updateOne (\<lambda>s. school_id s = sid) f (schools w)\<rparr>"

text \<open>
  \<^verbatim>\<open>populate({path: 'order', match: {user: userId}})\<close>: the referenced order, or null when
  it does not exist or belongs to another user.
\<close>

definition populateOrder :: "world \<Rightarrow> nat \<Rightarrow> build \<Rightarrow> order_doc option" where
  "populateOrder w userId b =
     find (\<lambda>ord. order_id ord = order b \<and> order_user ord = userId) (orders w)"

definition package_enum :: "string list" where
  "package_enum = [''small'', ''medium'', ''lifetime'', ''enterprise'']"

definition thirty_days :: int where
  "thirty_days = 30 * 24 * 60 * 60 * 1000"

text \<open>
  A new document of the Build model: the given fields and the schema's defaults (status
  queued, progress 0, downloadCount 0, expiresAt thirty days ahead).
\<close>

definition newBuild :: "int \<Rightarrow> string \<Rightarrow> nat \<Rightarrow> nat \<Rightarrow> nat \<Rightarrow> string \<Rightarrow> build" where
  "newBuild now bid orderRef schoolRef userRef pkg =
     \<lparr> buildId = bid, order = orderRef, school = schoolRef, user = userRef,
       package = pkg, status = queued, progress = 0, stages = [],
       downloadUrl = None, downloadCount = 0, lastDownloadAt = None,
       error = None, startedAt = None, completedAt = None,
       expiresAt = Some (now + thirty_days), metadata = None, createdAt = now \<rparr>"

fun join_errors :: "string list \<Rightarrow> string" where
  "join_errors [] = []"
| "join_errors [e] = e"
| "join_errors (e # es) = e @ '', '' @ join_errors es"

text \<open>
  \<^verbatim>\<open>Build.create(doc)\<close> makes the document and saves it. The persistence library
  validates a document before it runs the schema's \<^verbatim>\<open>pre('save')\<close> hooks, so the hook
  that generates a \<^verbatim>\<open>buildId\<close> for a document without one runs only after the
  \<^verbatim>\<open>required\<close> validator of that path has passed: a document created without
  \<^verbatim>\<open>buildId\<close> is rejected with a ValidationError and nothing is inserted. \<open>bid\<close> is the
  \<^verbatim>\<open>buildId\<close> of the argument, \<open>None\<close> when it has none. The other validators
  are the enum on \<^verbatim>\<open>package\<close> and the unique index on \<^verbatim>\<open>buildId\<close>.
\<close>

definition validation_errors :: "string option \<Rightarrow> string \<Rightarrow> string list" where
  "validation_errors bid pkg =
     (if bid = None then [''buildId: Path `buildId` is required.''] else []) @
     (if pkg \<notin> set package_enum
      then [''package: `'' @ pkg @ ''` is not a valid enum value for path `package`.'']
      else [])"

definition Build_create ::
  "int \<Rightarrow> string option \<Rightarrow> nat \<Rightarrow> nat \<Rightarrow> nat \<Rightarrow> string \<Rightarrow> world \<Rightarrow> string + (world \<times> build)" where
  "Build_create now bid orderRef schoolRef userRef pkg w =
     (let invalid = Inl (''Build validation failed: '' @ join_errors (validation_errors bid pkg))
      in case bid of
           None \<Rightarrow> invalid
         | Some newId \<Rightarrow>
             if validation_errors bid pkg \<noteq> [] then invalid
             else
               (case findBuild newId w of
                  Some _ \<Rightarrow> Inl ''E11000 duplicate key error: buildId''
                | None \<Rightarrow>
                  (let b = newBuild now newId orderRef schoolRef userRef pkg
                   in Inr (w\<lparr>builds := builds w @ [b]\<rparr>, b))))"

section \<open>Job queue\<close>

text \<open>
  \<^verbatim>\<open>QueueManager.init\<close> registers the queues under the keys build, payment and email;
  \<^verbatim>\<open>add(queueName, data)\<close> throws for any other name.
\<close>

definition queue_names :: "string list" where
  "queue_names = [''build'', ''payment'', ''email'']"

definition queue_add :: "string \<Rightarrow> string \<Rightarrow> world \<Rightarrow> string + world" where
  "queue_add queueName bid w =
     (if queueName \<notin> set queue_names then Inl (''Queue '' @ queueName @ '' not found'')
      else Inr (w\<lparr>jobs := jobs w @ [(queueName, bid)]\<rparr>))"

section \<open>BuildService.createBuild and the build controller\<close>

text \<open>
  \<^verbatim>\<open>createBuild\<close> passes order, school, user, package, status and progress to
  \<^verbatim>\<open>Build.create\<close>, and no \<^verbatim>\<open>buildId\<close>.
\<close>

definition createBuild ::
  "world \<Rightarrow> int \<Rightarrow> nat \<Rightarrow> nat \<Rightarrow> nat \<Rightarrow> world \<times> (string + string)" where
  "createBuild w now orderRef schoolRef userId =
     (case findOrderById orderRef w of
        None \<Rightarrow> (w, Inl ''Order or school not found'')
      | Some ord \<Rightarrow>
        (case findSchoolById schoolRef w of
           None \<Rightarrow> (w, Inl ''Order or school not found'')
         | Some sch \<Rightarrow>
           (case Build_create now None orderRef schoolRef userId (package_type ord) w of
              Inl msg \<Rightarrow> (w, Inl msg)
            | Inr (w1, b) \<Rightarrow> (w1, Inr (buildId b)))))"

definition findConfirmedOrder :: "world \<Rightarrow> nat \<Rightarrow> string \<Rightarrow> order_doc option" where
  "findConfirmedOrder w userId oid =
     find (\<lambda>ord. orderId ord = oid \<and> order_user ord = userId \<and>
                 payment_status ord = ''completed'' \<and> order_status ord = ''confirmed'')
          (orders w)"

definition populateSchool :: "world \<Rightarrow> order_doc \<Rightarrow> school_doc option" where
  "populateSchool w ord =
     (case order_school ord of None \<Rightarrow> None | Some sid \<Rightarrow> findSchoolById sid w)"

definition findBuildByOrder :: "nat \<Rightarrow> world \<Rightarrow> build option" where
  "findBuildByOrder oid w = find (\<lambda>b. order b = oid) (builds w)"

definition startBuild :: "world \<Rightarrow> int \<Rightarrow> nat \<Rightarrow> string \<Rightarrow> world \<times> response" where
  "startBuild w now userId oid =
     (case findConfirmedOrder w userId oid of
        None \<Rightarrow> (w, Json 400 False ''Order not found or payment not completed'' None)
      | Some ord \<Rightarrow>
        (case populateSchool w ord of
           None \<Rightarrow> (w, Json 400 False ''School not set up for this order'' None)
         | Some sch \<Rightarrow>
           (case findBuildByOrder (order_id ord) w of
              Some existingBuild \<Rightarrow>
                (w, Json 400 False ''Build already exists for this order''
                      (Some (buildId existingBuild)))
            | None \<Rightarrow>
              (case createBuild w now (order_id ord) (school_id sch) userId of
                 (w1, Inl msg) \<Rightarrow> (w1, Next msg)
               | (w1, Inr bid) \<Rightarrow>
                 (case queue_add ''process-build'' bid w1 of
                    Inl msg \<Rightarrow> (w1, Next msg)
                  | Inr w2 \<Rightarrow> (w2, Json 200 True ''Build process started'' (Some bid)))))))"

definition retryBuild :: "world \<Rightarrow> nat \<Rightarrow> string \<Rightarrow> world \<times> response" where
  "retryBuild w userId bid =
     (case findBuild bid w of
        None \<Rightarrow> (w, Json 404 False ''Build not found or access denied'' None)
      | Some b \<Rightarrow>
        (case populateOrder w userId b of
           None \<Rightarrow> (w, Json 404 False ''Build not found or access denied'' None)
         | Some ord \<Rightarrow>
           (if status b \<noteq> failed
            then (w, Json 400 False ''Only failed builds can be retried'' None)
            else
              (let w1 = saveBuild bid
                          (\<lambda>b. b\<lparr>status := queued, progress := 0, stages := [], error := None,
                                  startedAt := None, completedAt := None\<rparr>) w
               in case queue_add ''process-build'' bid w1 of
                    Inl msg \<Rightarrow> (w1, Next msg)
                  | Inr w2 \<Rightarrow> (w2, Json 200 True ''Build retry queued'' (Some bid))))))"

definition cancelBuild :: "world \<Rightarrow> int \<Rightarrow> nat \<Rightarrow> string \<Rightarrow> world \<times> response" where
  "cancelBuild w now userId bid =
     (case findBuild bid w of
        None \<Rightarrow> (w, Json 404 False ''Build not found or access denied'' None)
      | Some b \<Rightarrow>
        (case populateOrder w userId b of
           None \<Rightarrow> (w, Json 404 False ''Build not found or access denied'' None)
         | Some ord \<Rightarrow>
           (if status b \<notin> {queued, processing}
            then (w, Json 400 False ''Only queued or processing builds can be cancelled'' None)
            else
              (let w1 = saveBuild bid (\<lambda>b. b\<lparr>status := cancelled, completedAt := Some now\<rparr>) w;
                   w2 = Order_findByIdAndUpdate (order_id ord)
                          (\<lambda>ord. ord\<lparr>buildStatus := Some ''cancelled'',
                                      order_status := ''cancelled''\<rparr>) w1
               in (w2, Json 200 True ''Build cancelled successfully'' None)))))"

section \<open>Download controller\<close>

definition incrementDownloadCount :: "string \<Rightarrow> int \<Rightarrow> world \<Rightarrow> world" where
  "incrementDownloadCount bid now w =
     saveBuild bid (\<lambda>b. b\<lparr>downloadCount := downloadCount b + 1, lastDownloadAt := Some now\<rparr>) w"

text \<open>A JavaScript string is falsy when it is undefined, null or empty.\<close>

definition truthy :: "string option \<Rightarrow> bool" where
  "truthy s = (case s of None \<Rightarrow> False | Some u \<Rightarrow> u \<noteq> [])"

definition downloadSystem :: "world \<Rightarrow> int \<Rightarrow> nat \<Rightarrow> string \<Rightarrow> world \<times> response" where
  "downloadSystem w now userId bid =
     (case findBuild bid w of
        None \<Rightarrow> (w, Json 404 False ''Build not found or access denied'' None)
      | Some b \<Rightarrow>
        (case populateOrder w userId b of
           None \<Rightarrow> (w, Json 404 False ''Build not found or access denied'' None)
         | Some ord \<Rightarrow>
           (if status b \<noteq> completed
            then (w, Json 400 False ''Build is not yet completed'' None)
            else if \<not> truthy (downloadUrl b)
            then (w, Json 400 False ''Download URL not available'' None)
            else (incrementDownloadCount bid now w, Redirect (the (downloadUrl b))))))"

definition packageKey :: "string \<Rightarrow> string" where
  "packageKey bid = ''builds/'' @ bid @ ''/school-system.zip''"

definition day_seconds :: nat where
  "day_seconds = 24 * 60 * 60"

definition expired :: "int \<Rightarrow> build \<Rightarrow> bool" where
  "expired now b = (case expiresAt b of None \<Rightarrow> False | Some e \<Rightarrow> now > e)"

text \<open>
  \<open>sign\<close> is the object store's \<^verbatim>\<open>generateSignedUrl(key, expiresIn)\<close>: a URL, or an
  error that it rethrows.
\<close>

definition generateNewLink ::
  "(string \<Rightarrow> nat \<Rightarrow> string + string) \<Rightarrow> world \<Rightarrow> int \<Rightarrow> nat \<Rightarrow> string \<Rightarrow> world \<times> response" where
  "generateNewLink sign w now userId bid =
     (case findBuild bid w of
        None \<Rightarrow> (w, Json 404 False ''Build not found or access denied'' None)
      | Some b \<Rightarrow>
        (case populateOrder w userId b of
           None \<Rightarrow> (w, Json 404 False ''Build not found or access denied'' None)
         | Some ord \<Rightarrow>
           (if status b \<noteq> completed
            then (w, Json 400 False ''Build is not yet completed'' None)
            else if expired now b
            then (w, Json 400 False ''Download link has expired. Please contact support.'' None)
            else
              (case sign (packageKey bid) day_seconds of
                 Inl msg \<Rightarrow> (w, Next msg)
               | Inr newUrl \<Rightarrow>
                   (saveBuild bid (\<lambda>b. b\<lparr>downloadUrl := Some newUrl\<rparr>) w,
                    Json 200 True ''New download link generated'' (Some newUrl))))))"

section \<open>BuildService: the stages\<close>

text \<open>
  The file system, the object store, the package installer and the mailer are outside
  the code; one run of the pipeline receives their answers in \<open>run_env\<close>.
  \<open>clock env i\<close> is the value of the \<open>i\<close>-th \<^verbatim>\<open>new Date()\<close> site of
  \<^verbatim>\<open>processBuild\<close>: 0 for startedAt, 1 to 6 for the stages, 7 for completedAt,
  8 for the school's lastUpdate, 9 for completedAt in the catch block.
\<close>

record run_env =
  clock :: "nat \<Rightarrow> int"
  mkdir :: "string \<Rightarrow> string + unit"
  access :: "string \<Rightarrow> bool"
  copyDirectory :: "string \<Rightarrow> string \<Rightarrow> string + unit"
  writeConfig :: "string \<Rightarrow> string + unit"
  writeDatabase :: "string \<Rightarrow> string + unit"
  npmInstall :: "string \<Rightarrow> string + unit"
  uploadFile :: "string \<Rightarrow> string \<Rightarrow> string + string"
  generateSignedUrl :: "string \<Rightarrow> nat \<Rightarrow> string + string"
  statSize :: "string \<Rightarrow> nat"
  readDependencies :: "string \<Rightarrow> string list"
  sendBuildCompletionNotification :: "string + unit"

definition path_join :: "string \<Rightarrow> string \<Rightarrow> string" where
  "path_join a b = a @ ''/'' @ b"

definition templateDir :: string where
  "templateDir = ''templates''"

definition buildsDir :: string where
  "buildsDir = ''builds''"

definition addBuildStage :: "string \<Rightarrow> string \<Rightarrow> int \<Rightarrow> world \<Rightarrow> world" where
  "addBuildStage bid nm t w =
     saveBuild bid
       (\<lambda>b. b\<lparr>stages := stages b @
                 [\<lparr> name = nm, stage_status = ''processing'', stage_startedAt = t,
                    stage_completedAt = None, stage_error = None \<rparr>]\<rparr>) w"

text \<open>\<^verbatim>\<open>completeBuildStage\<close> is defined by the service; \<^verbatim>\<open>processBuild\<close> does not call it.\<close>

definition completeBuildStage :: "string \<Rightarrow> string \<Rightarrow> int \<Rightarrow> world \<Rightarrow> world" where
  "completeBuildStage bid nm t w =
     saveBuild bid
       (\<lambda>b. b\<lparr>stages :=
                 updateOne (\<lambda>s. name s = nm \<and> stage_completedAt s = None)
                   (\<lambda>s. s\<lparr>stage_status := ''completed'', stage_completedAt := Some t\<rparr>)
                   (stages b)\<rparr>) w"

text \<open>
  \<^verbatim>\<open>copyTemplate\<close> declares \<^verbatim>\<open>const templatePath\<close> and assigns to it in the catch block
  of \<^verbatim>\<open>fs.access\<close>: the assignment throws a TypeError, so the copy is reached only when
  the tier's own template directory is accessible.
\<close>

definition copyTemplate :: "run_env \<Rightarrow> string \<Rightarrow> string \<Rightarrow> string + unit" where
  "copyTemplate env packageType destination =
     (let templatePath = path_join templateDir packageType
      in if access env templatePath
         then copyDirectory env templatePath destination
         else Inl ''Assignment to constant variable.'')"

definition configureSystem ::
  "run_env \<Rightarrow> string \<Rightarrow> school_doc option \<Rightarrow> order_doc option \<Rightarrow> string + unit" where
  "configureSystem env buildPath sch ord =
     (case mkdir env (path_join buildPath ''config'') of
        Inl msg \<Rightarrow> Inl msg
      | Inr _ \<Rightarrow>
        (case sch of
           None \<Rightarrow> Inl ''Cannot read properties of null''
         | Some s \<Rightarrow>
           (case ord of
              None \<Rightarrow> Inl ''Cannot read properties of null''
            | Some _ \<Rightarrow>
              (case createdBy_email s of
                 None \<Rightarrow> Inl ''Cannot read properties of null''
               | Some _ \<Rightarrow> writeConfig env buildPath))))"

definition generateDatabase ::
  "run_env \<Rightarrow> string \<Rightarrow> school_doc option \<Rightarrow> order_doc option \<Rightarrow> string + string" where
  "generateDatabase env buildPath sch ord =
     (let dbPath = path_join buildPath ''database''
      in case mkdir env dbPath of
           Inl msg \<Rightarrow> Inl msg
         | Inr _ \<Rightarrow>
           (case sch of
              None \<Rightarrow> Inl ''Cannot read properties of null''
            | Some s \<Rightarrow>
              (case createdBy_email s of
                 None \<Rightarrow> Inl ''Cannot read properties of null''
               | Some _ \<Rightarrow>
                 (case ord of
                    None \<Rightarrow> Inl ''Cannot read properties of null''
                  | Some _ \<Rightarrow>
                    (case writeDatabase env dbPath of
                       Inl msg \<Rightarrow> Inl msg
                     | Inr _ \<Rightarrow> Inr (path_join dbPath ''initial-data.json''))))))"

text \<open>A failed installation is logged as a warning; the function never throws.\<close>

definition installDependencies :: "run_env \<Rightarrow> string \<Rightarrow> string + unit" where
  "installDependencies env buildPath =
     (if access env (path_join buildPath ''package.json'')
      then (case npmInstall env buildPath of Inl _ \<Rightarrow> Inr () | Inr _ \<Rightarrow> Inr ())
      else Inr ())"

text \<open>
  The service module binds \<^verbatim>\<open>fs\<close> to \<^verbatim>\<open>require('fs').promises\<close>, which has no
  \<^verbatim>\<open>createWriteStream\<close>: the call \<^verbatim>\<open>fs.createWriteStream(outputPath)\<close> in the second
  line of \<^verbatim>\<open>createPackage\<close> throws a TypeError before the archiver is created,
  whatever the arguments and whatever the file system holds.
\<close>

definition createPackage :: "run_env \<Rightarrow> string \<Rightarrow> string \<Rightarrow> string + string" where
  "createPackage env bid buildPath =
     (let outputPath = path_join buildsDir (bid @ ''.zip'')
      in Inl ''fs.createWriteStream is not a function'')"

definition uploadToStorage :: "run_env \<Rightarrow> string \<Rightarrow> string \<Rightarrow> string \<Rightarrow> string + string" where
  "uploadToStorage env bid packageFile dbFile =
     (case uploadFile env packageFile (packageKey bid) of
        Inl msg \<Rightarrow> Inl msg
      | Inr _ \<Rightarrow>
        (case uploadFile env dbFile (''builds/'' @ bid @ ''/database.json'') of
           Inl msg \<Rightarrow> Inl msg
         | Inr _ \<Rightarrow> generateSignedUrl env (packageKey bid) day_seconds))"

section \<open>BuildService.processBuild\<close>

text \<open>
  One stage of the try block: \<^verbatim>\<open>addBuildStage\<close> (push and save), the awaited work, then
  the progress assignment and save. While the work is awaited the server handles other
  requests; \<open>intr k\<close> is what they do to the store during stage \<open>k\<close>.
\<close>

definition runStage ::
  "(nat \<Rightarrow> world \<Rightarrow> world) \<Rightarrow> nat \<Rightarrow> string \<Rightarrow> string \<Rightarrow> int \<Rightarrow> string + 'a \<Rightarrow> nat \<Rightarrow> world
   \<Rightarrow> world \<times> (string + 'a)" where
  "runStage intr k bid nm t work prog w =
     (let w1 = intr k (addBuildStage bid nm t w)
      in case work of
           Inl msg \<Rightarrow> (w1, Inl msg)
         | Inr v \<Rightarrow> (saveBuild bid (\<lambda>b. b\<lparr>progress := prog\<rparr>) w1, Inr v))"

definition finishBuild ::
  "run_env \<Rightarrow> build \<Rightarrow> string \<Rightarrow> string \<Rightarrow> string \<Rightarrow> world \<Rightarrow> world \<times> (string + string)" where
  "finishBuild env build buildPath packageFile url w =
     (let bid = buildId build;
          w1 = saveBuild bid
                 (\<lambda>b. b\<lparr>status := completed, completedAt := Some (clock env 7),
                         downloadUrl := Some url,
                         metadata := Some \<lparr> buildTime = clock env 7 - clock env 0,
                                           fileSize = statSize env packageFile,
                                           version = ''1.0.0'',
                                           dependencies = readDependencies env buildPath \<rparr>\<rparr>) w;
          w2 = Order_findByIdAndUpdate (order build)
                 (\<lambda>ord. ord\<lparr>buildStatus := Some ''completed'', order_downloadUrl := Some url,
                             order_status := ''completed''\<rparr>) w1;
          w3 = School_findByIdAndUpdate (school build)
                 (\<lambda>s. s\<lparr>meta_buildId := Some bid, meta_downloadUrl := Some url,
                         meta_lastUpdate := Some (clock env 8), school_status := ''active''\<rparr>) w2
      in case sendBuildCompletionNotification env of
           Inl msg \<Rightarrow> (w3, Inl msg)
         | Inr _ \<Rightarrow> (w3, Inr url))"

definition pipeline ::
  "(nat \<Rightarrow> world \<Rightarrow> world) \<Rightarrow> run_env \<Rightarrow> world \<Rightarrow> build \<Rightarrow> world \<times> (string + string)" where
  "pipeline intr env w build =
     (let bid = buildId build;
          w0 = saveBuild bid
                 (\<lambda>b. b\<lparr>status := processing, startedAt := Some (clock env 0), stages := []\<rparr>) w;
          sch = findSchoolById (school build) w0;
          ord = findOrderById (order build) w0;
          buildPath = path_join buildsDir bid
      in case mkdir env buildPath of
           Inl msg \<Rightarrow> (w0, Inl msg)
         | Inr _ \<Rightarrow>
       (case runStage intr 1 bid ''copy_template'' (clock env 1)
               (copyTemplate env (package build) buildPath) 20 w0 of
          (w1, Inl msg) \<Rightarrow> (w1, Inl msg)
        | (w1, Inr _) \<Rightarrow>
       (case runStage intr 2 bid ''configuration'' (clock env 2)
               (configureSystem env buildPath sch ord) 40 w1 of
          (w2, Inl msg) \<Rightarrow> (w2, Inl msg)
        | (w2, Inr _) \<Rightarrow>
       (case runStage intr 3 bid ''database'' (clock env 3)
               (generateDatabase env buildPath sch ord) 60 w2 of
          (w3, Inl msg) \<Rightarrow> (w3, Inl msg)
        | (w3, Inr dbFile) \<Rightarrow>
       (case runStage intr 4 bid ''dependencies'' (clock env 4)
               (installDependencies env buildPath) 80 w3 of
          (w4, Inl msg) \<Rightarrow> (w4, Inl msg)
        | (w4, Inr _) \<Rightarrow>
       (case runStage intr 5 bid ''packaging'' (clock env 5)
               (createPackage env bid buildPath) 90 w4 of
          (w5, Inl msg) \<Rightarrow> (w5, Inl msg)
        | (w5, Inr packageFile) \<Rightarrow>
       (case runStage intr 6 bid ''upload'' (clock env 6)
               (uploadToStorage env bid packageFile dbFile) 100 w5 of
          (w6, Inl msg) \<Rightarrow> (w6, Inl msg)
        | (w6, Inr url) \<Rightarrow> finishBuild env build buildPath packageFile url w6)))))))"

text \<open>
  The catch block: when the build was loaded, record the failure on the build and on the
  order; in every case rethrow.
\<close>

definition processBuildWith ::
  "(nat \<Rightarrow> world \<Rightarrow> world) \<Rightarrow> run_env \<Rightarrow> world \<Rightarrow> string \<Rightarrow> world \<times> (string + string)" where
  "processBuildWith intr env w bid =
     (case findBuild bid w of
        None \<Rightarrow> (w, Inl ''Build not found'')
      | Some build \<Rightarrow>
        (case pipeline intr env w build of
           (w1, Inl msg) \<Rightarrow>
             (let w2 = saveBuild bid
                         (\<lambda>b. b\<lparr>status := failed, error := Some msg,
                                 completedAt := Some (clock env 9)\<rparr>) w1;
                  w3 = Order_findByIdAndUpdate (order build)
                         (\<lambda>ord. ord\<lparr>buildStatus := Some ''failed'',
                                     order_status := ''failed''\<rparr>) w2
              in (w3, Inl msg))
         | (w1, Inr url) \<Rightarrow> (w1, Inr url)))"

text \<open>A run during which no other request touches the store.\<close>

definition processBuild :: "run_env \<Rightarrow> world \<Rightarrow> string \<Rightarrow> world \<times> (string + string)" where
  "processBuild env w bid = processBuildWith (\<lambda>k w. w) env w bid"

section \<open>The stores that a run persists\<close>

text \<open>
  Every \<^verbatim>\<open>save\<close> and \<^verbatim>\<open>findByIdAndUpdate\<close> of a run writes to the database, and
  the run awaits between them: what it has written so far is what the other requests
  read. \<open>pipelineStoresWith\<close> lists, in order, the stores that the database holds
  during the try block of a run: the stores that the run persists and, for every stage
  \<open>k\<close>, the store that the other requests leave while the stage is awaited
  (\<open>intr k\<close>, as in \<open>processBuildWith\<close>). The list ends where the run throws.
  \<open>processStoresWith\<close> adds the two writes of the catch block.
\<close>

definition finishStores :: "run_env \<Rightarrow> build \<Rightarrow> string \<Rightarrow> string \<Rightarrow> string \<Rightarrow> world \<Rightarrow> world list" where
  "finishStores env build buildPath packageFile url w =
     (let bid = buildId build;
          w1 = saveBuild bid
                 (\<lambda>b. b\<lparr>status := completed, completedAt := Some (clock env 7),
                         downloadUrl := Some url,
                         metadata := Some \<lparr> buildTime = clock env 7 - clock env 0,
                                           fileSize = statSize env packageFile,
                                           version = ''1.0.0'',
                                           dependencies = readDependencies env buildPath \<rparr>\<rparr>) w;
          w2 = Order_findByIdAndUpdate (order build)
                 (\<lambda>ord. ord\<lparr>buildStatus := Some ''completed'', order_downloadUrl := Some url,
                             order_status := ''completed''\<rparr>) w1;
          w3 = School_findByIdAndUpdate (school build)
                 (\<lambda>s. s\<lparr>meta_buildId := Some bid, meta_downloadUrl := Some url,
                         meta_lastUpdate := Some (clock env 8), school_status := ''active''\<rparr>) w2
      in [w1, w2, w3])"

definition pipelineStoresWith ::
  "(nat \<Rightarrow> world \<Rightarrow> world) \<Rightarrow> run_env \<Rightarrow> world \<Rightarrow> build \<Rightarrow> world list" where
  "pipelineStoresWith intr env w build =
     (let bid = buildId build;
          w0 = saveBuild bid
                 (\<lambda>b. b\<lparr>status := processing, startedAt := Some (clock env 0), stages := []\<rparr>) w;
          sch = findSchoolById (school build) w0;
          ord = findOrderById (order build) w0;
          buildPath = path_join buildsDir bid;
          a1 = addBuildStage bid ''copy_template'' (clock env 1) w0;
          i1 = intr 1 a1;
          w1 = saveBuild bid (\<lambda>b. b\<lparr>progress := 20\<rparr>) i1;
          a2 = addBuildStage bid ''configuration'' (clock env 2) w1;
          i2 = intr 2 a2;
          w2 = saveBuild bid (\<lambda>b. b\<lparr>progress := 40\<rparr>) i2;
          a3 = addBuildStage bid ''database'' (clock env 3) w2;
          i3 = intr 3 a3;
          w3 = saveBuild bid (\<lambda>b. b\<lparr>progress := 60\<rparr>) i3;
          a4 = addBuildStage bid ''dependencies'' (clock env 4) w3;
          i4 = intr 4 a4;
          w4 = saveBuild bid (\<lambda>b. b\<lparr>progress := 80\<rparr>) i4;
          a5 = addBuildStage bid ''packaging'' (clock env 5) w4;
          i5 = intr 5 a5;
          w5 = saveBuild bid (\<lambda>b. b\<lparr>progress := 90\<rparr>) i5;
          a6 = addBuildStage bid ''upload'' (clock env 6) w5;
          i6 = intr 6 a6;
          w6 = saveBuild bid (\<lambda>b. b\<lparr>progress := 100\<rparr>) i6
      in w0 #
         (case mkdir env buildPath of Inl _ \<Rightarrow> [] | Inr _ \<Rightarrow>
          a1 # i1 #
         (case copyTemplate env (package build) buildPath of Inl _ \<Rightarrow> [] | Inr _ \<Rightarrow>
          w1 # a2 # i2 #
         (case configureSystem env buildPath sch ord of Inl _ \<Rightarrow> [] | Inr _ \<Rightarrow>
          w2 # a3 # i3 #
         (case generateDatabase env buildPath sch ord of Inl _ \<Rightarrow> [] | Inr dbFile \<Rightarrow>
          w3 # a4 # i4 #
         (case installDependencies env buildPath of Inl _ \<Rightarrow> [] | Inr _ \<Rightarrow>
          w4 # a5 # i5 #
         (case createPackage env bid buildPath of Inl _ \<Rightarrow> [] | Inr packageFile \<Rightarrow>
          w5 # a6 # i6 #
         (case uploadToStorage env bid packageFile dbFile of Inl _ \<Rightarrow> [] | Inr url \<Rightarrow>
          w6 # finishStores env build buildPath packageFile url w6))))))))"

definition processStoresWith ::
  "(nat \<Rightarrow> world \<Rightarrow> world) \<Rightarrow> run_env \<Rightarrow> world \<Rightarrow> string \<Rightarrow> world list" where
  "processStoresWith intr env w bid =
     (case findBuild bid w of
        None \<Rightarrow> []
      | Some build \<Rightarrow>
        (let ws = pipelineStoresWith intr env w build
         in case snd (pipeline intr env w build) of
              Inl msg \<Rightarrow>
                (let w2 = saveBuild bid
                            (\<lambda>b. b\<lparr>status := failed, error := Some msg,
                                    completedAt := Some (clock env 9)\<rparr>) (last ws);
                     w3 = Order_findByIdAndUpdate (order build)
                            (\<lambda>ord. ord\<lparr>buildStatus := Some ''failed'',
                                        order_status := ''failed''\<rparr>) w2
                 in ws @ [w2, w3])
            | Inr url \<Rightarrow> ws))"

text \<open>The stores of a run during which no other request touches the store.\<close>

definition processStores :: "run_env \<Rightarrow> world \<Rightarrow> string \<Rightarrow> world list" where
  "processStores env w bid = processStoresWith (\<lambda>k w. w) env w bid"

section \<open>Requests, runs and reachable stores\<close>

text \<open>The requests of the build and download routes, and their handlers.\<close>

datatype request =
  StartBuild int string
| RetryBuild string
| CancelBuild int string
| DownloadSystem int string
| GenerateNewLink "string \<Rightarrow> nat \<Rightarrow> string + string" int string

fun handle :: "world \<Rightarrow> nat \<Rightarrow> request \<Rightarrow> world \<times> response" where
  "handle w userId (StartBuild now oid) = startBuild w now userId oid"
| "handle w userId (RetryBuild bid) = retryBuild w userId bid"
| "handle w userId (CancelBuild now bid) = cancelBuild w now userId bid"
| "handle w userId (DownloadSystem now bid) = downloadSystem w now userId bid"
| "handle w userId (GenerateNewLink sign now bid) = generateNewLink sign w now userId bid"

text \<open>A sequence of requests, each with the user who sends it, handled one after the other.\<close>

fun handleAll :: "(nat \<times> request) list \<Rightarrow> world \<Rightarrow> world" where
  "handleAll [] w = w"
| "handleAll ((userId, r) # rs) w = handleAll rs (fst (handle w userId r))"

text \<open>A cancel request handled while stage \<open>k0\<close> of a run is awaited.\<close>

definition cancelDuring :: "nat \<Rightarrow> int \<Rightarrow> nat \<Rightarrow> string \<Rightarrow> nat \<Rightarrow> world \<Rightarrow> world" where
  "cancelDuring k0 now userId bid k w =
     (if k = k0 then fst (cancelBuild w now userId bid) else w)"

text \<open>The error messages of the file system are not empty strings.\<close>

definition nonempty_err :: "string + 'a \<Rightarrow> bool" where
  "nonempty_err r = (r \<noteq> Inl [])"

definition env_ok :: "run_env \<Rightarrow> bool" where
  "env_ok env =
     ((\<forall>p. nonempty_err (mkdir env p)) \<and>
      (\<forall>s d. nonempty_err (copyDirectory env s d)) \<and>
      (\<forall>p. nonempty_err (writeConfig env p)) \<and>
      (\<forall>p. nonempty_err (writeDatabase env p)))"

text \<open>
  A build that no operation has touched yet: the run-scoped and download fields have
  the values of a new document (\<open>newBuild\<close>).
\<close>

definition fresh :: "build \<Rightarrow> bool" where
  "fresh b =
     (status b = queued \<and> progress b = 0 \<and> stages b = [] \<and> downloadUrl b = None \<and>
      downloadCount b = 0 \<and> lastDownloadAt b = None \<and> error b = None \<and>
      startedAt b = None \<and> completedAt b = None \<and>
      expiresAt b = Some (createdAt b + thirty_days) \<and> metadata b = None)"

text \<open>
  The stores between operations that do not overlap. The builds of the first store are
  given, each of them fresh (\<^verbatim>\<open>createBuild\<close> itself inserts none); the operations
  are the requests, direct calls of \<^verbatim>\<open>createBuild\<close> (the school controller), whole
  runs of \<^verbatim>\<open>processBuild\<close> that the queue dispatches, and the other controllers'
  changes to orders and schools.
\<close>

inductive at_rest :: "world \<Rightarrow> bool" where
  initial: "\<forall>b\<in>set (builds w). fresh b \<Longrightarrow> at_rest w"
| request: "at_rest w \<Longrightarrow> at_rest (fst (handle w userId r))"
| create: "at_rest w \<Longrightarrow> at_rest (fst (createBuild w now orderRef schoolRef userId))"
| dispatch: "at_rest w \<Longrightarrow> env_ok env \<Longrightarrow> at_rest (fst (processBuild env w bid))"
| external: "at_rest w \<Longrightarrow> at_rest (w\<lparr>orders := os, schools := ss\<rparr>)"

text \<open>
  The stores that the database holds at any time. A dispatched run contributes every
  store of \<open>processStoresWith\<close>, the last of which is the store in which it ends;
  \<open>reqs k\<close> are the requests that are handled while its stage \<open>k\<close> is awaited.
\<close>

inductive reachable :: "world \<Rightarrow> bool" where
  initial: "\<forall>b\<in>set (builds w). fresh b \<Longrightarrow> reachable w"
| request: "reachable w \<Longrightarrow> reachable (fst (handle w userId r))"
| create: "reachable w \<Longrightarrow> reachable (fst (createBuild w now orderRef schoolRef userId))"
| running: "reachable w \<Longrightarrow> env_ok env \<Longrightarrow>
            w' \<in> set (processStoresWith (\<lambda>k. handleAll (reqs k)) env w bid) \<Longrightarrow> reachable w'"
| external: "reachable w \<Longrightarrow> reachable (w\<lparr>orders := os, schools := ss\<rparr>)"

text \<open>
  Two properties of a build that the operations preserve: the first in every reachable
  store, the second in the stores between operations.
\<close>

definition build_inv :: "build \<Rightarrow> bool" where
  "build_inv b =
     (status b \<noteq> completed \<and> downloadUrl b = None \<and> (status b = failed \<longrightarrow> truthy (error b)))"

definition rest_inv :: "build \<Rightarrow> bool" where
  "rest_inv b =
     (status b \<noteq> completed \<and> status b \<noteq> processing \<and> downloadUrl b = None \<and>
      (truthy (error b) \<longleftrightarrow> status b = failed))"

text \<open>
  The stage history that \<^verbatim>\<open>addBuildStage\<close> alone leaves behind: stages that are still
  processing and without completedAt.
\<close>

definition six_open_stages :: "run_env \<Rightarrow> stage list" where
  "six_open_stages env =
     map (\<lambda>(i, nm). \<lparr> name = nm, stage_status = ''processing'', stage_startedAt = clock env i,
                        stage_completedAt = None, stage_error = None \<rparr>)
       [(1, ''copy_template''), (2, ''configuration''), (3, ''database''),
        (4, ''dependencies''), (5, ''packaging''), (6, ''upload'')]"

section \<open>Example data\<close>

definition ex_order :: order_doc where
  "ex_order = \<lparr> order_id = 1, orderId = ''ORD-001'', order_user = 7,
     payment_status = ''completed'', order_status = ''confirmed'', buildStatus = None,
     order_downloadUrl = None, order_school = Some 3, package_type = ''medium'' \<rparr>"

definition ex_school :: school_doc where
  "ex_school = \<lparr> school_id = 3, school_name = ''Hill School'',
     createdBy_email = Some ''head@hill.example'', school_status = ''pending'',
     meta_buildId = None, meta_downloadUrl = None, meta_lastUpdate = None \<rparr>"

definition ex_build :: build where
  "ex_build = \<lparr> buildId = ''BLD-1'', order = 1, school = 3, user = 7, package = ''medium'',
     status = queued, progress = 0, stages = [], downloadUrl = None, downloadCount = 0,
     lastDownloadAt = None, error = None, startedAt = None, completedAt = None,
     expiresAt = Some 2592000500, metadata = None, createdAt = 500 \<rparr>"

definition ex_world0 :: world where
  "ex_world0 = \<lparr> builds = [], orders = [ex_order], schools = [ex_school], jobs = [] \<rparr>"

definition ex_world :: world where
  "ex_world = \<lparr> builds = [ex_build], orders = [ex_order], schools = [ex_school], jobs = [] \<rparr>"

text \<open>Two runs in which every collaborator succeeds, the second an hour after the first.\<close>

definition ex_env :: run_env where
  "ex_env = \<lparr> clock = (\<lambda>i. 1000 + int i), mkdir = (\<lambda>_. Inr ()), access = (\<lambda>_. True),
     copyDirectory = (\<lambda>_ _. Inr ()), writeConfig = (\<lambda>_. Inr ()),
     writeDatabase = (\<lambda>_. Inr ()), npmInstall = (\<lambda>_. Inr ()),
     uploadFile = (\<lambda>_ k. Inr (''https://s3/'' @ k)),
     generateSignedUrl = (\<lambda>k _. Inr (''https://signed/'' @ k)),
     statSize = (\<lambda>_. 42), readDependencies = (\<lambda>_. []),
     sendBuildCompletionNotification = Inr () \<rparr>"

definition ex_env_later :: run_env where
  "ex_env_later = ex_env\<lparr>clock := (\<lambda>i. 3601000 + int i)\<rparr>"

text \<open>Only the base template exists.\<close>

definition ex_env_base_only :: run_env where
  "ex_env_base_only = ex_env\<lparr>access := (\<lambda>p. p = ''templates/base-system'')\<rparr>"

definition ex_sign :: "string \<Rightarrow> nat \<Rightarrow> string + string" where
  "ex_sign k ttl = Inr (''https://signed/new/'' @ k)"

text \<open>
  The store after the run of the fresh build BLD-1, the store that the next run of
  BLD-1 persists first, and the store after the owner cancels the fresh build.
\<close>

definition ex_failed_build :: build where
  "ex_failed_build = ex_build\<lparr>status := failed, progress := 80,
     stages := take 5 (six_open_stages ex_env),
     error := Some ''fs.createWriteStream is not a function'', startedAt := Some 1000,
     completedAt := Some 1009\<rparr>"

definition ex_failed_world :: world where
  "ex_failed_world = \<lparr> builds = [ex_failed_build],
     orders = [ex_order\<lparr>buildStatus := Some ''failed'', order_status := ''failed''\<rparr>],
     schools = [ex_school], jobs = [] \<rparr>"

definition ex_rerun_build :: build where
  "ex_rerun_build = ex_failed_build\<lparr>status := processing, startedAt := Some 3601000,
     stages := []\<rparr>"

definition ex_rerun_world :: world where
  "ex_rerun_world = ex_failed_world\<lparr>builds := [ex_rerun_build]\<rparr>"

definition ex_cancelled_world :: world where
  "ex_cancelled_world = \<lparr> builds = [ex_build\<lparr>status := cancelled, completedAt := Some 600\<rparr>],
     orders = [ex_order\<lparr>buildStatus := Some ''cancelled'', order_status := ''cancelled''\<rparr>],
     schools = [ex_school], jobs = [] \<rparr>"

text \<open>
  A store in which BLD-1 is completed, with the fields as the success path of
  \<^verbatim>\<open>processBuild\<close> writes them.
\<close>

definition ex_url :: string where
  "ex_url = ''https://signed/builds/BLD-1/school-system.zip''"

definition ex_completed_build :: build where
  "ex_completed_build = ex_build\<lparr>status := completed, progress := 100,
     stages := six_open_stages ex_env, downloadUrl := Some ex_url,
     startedAt := Some 1000, completedAt := Some 1007,
     metadata := Some \<lparr> buildTime = 7, fileSize = 42, version = ''1.0.0'',
                         dependencies = [] \<rparr>\<rparr>"

definition ex_completed_world :: world where
  "ex_completed_world = \<lparr> builds = [ex_completed_build],
     orders = [ex_order\<lparr>buildStatus := Some ''completed'', order_downloadUrl := Some ex_url,
                       order_status := ''completed''\<rparr>],
     schools = [ex_school\<lparr>meta_buildId := Some ''BLD-1'', meta_downloadUrl := Some ex_url,
                          meta_lastUpdate := Some 1008, school_status := ''active''\<rparr>],
     jobs = [] \<rparr>"

section \<open>Store lemmas\<close>

lemma find_updateOne_same:
  "(\<And>x. p (f x) = p x) \<Longrightarrow> find p (updateOne p f xs) = map_option f (find p xs)"
  by (induction xs) auto

lemma find_updateOne_other:
  "(\<And>x. q (f x) = q x) \<Longrightarrow> (\<And>x. q x \<Longrightarrow> \<not> p x) \<Longrightarrow>
   find q (updateOne p f xs) = find q xs"
  by (induction xs) auto

lemma length_updateOne: "length (updateOne p f xs) = length xs"
  by (induction xs) auto

lemma updateOne_updateOne:
  "(\<And>x. p (g x) = p x) \<Longrightarrow>
   updateOne p f (updateOne p g xs) = updateOne p (\<lambda>x. f (g x)) xs"
  by (induction xs) auto

lemma ball_updateOne_pres:
  "\<forall>x\<in>set xs. Q x \<Longrightarrow> (\<And>x. Q x \<Longrightarrow> Q (f x)) \<Longrightarrow> \<forall>y\<in>set (updateOne p f xs). Q y"
  by (induction xs) auto

lemma find_SomeD: "find p xs = Some x \<Longrightarrow> p x"
  by (auto simp: find_Some_iff)

lemma findBuild_buildId: "findBuild bid w = Some b \<Longrightarrow> buildId b = bid"
  by (auto simp: findBuild_def dest: find_SomeD)

lemma findBuild_saveBuild_same:
  "(\<And>x. buildId (f x) = buildId x) \<Longrightarrow>
   findBuild bid (saveBuild bid f w) = map_option f (findBuild bid w)"
  unfolding findBuild_def saveBuild_def by (simp add: find_updateOne_same)

lemma findBuild_saveBuild_other:
  "(\<And>x. buildId (f x) = buildId x) \<Longrightarrow> bid' \<noteq> bid \<Longrightarrow>
   findBuild bid' (saveBuild bid f w) = findBuild bid' w"
  unfolding findBuild_def saveBuild_def by (simp, rule find_updateOne_other) auto

lemma findBuild_saveBuild:
  "(\<And>x. buildId (f x) = buildId x) \<Longrightarrow>
   findBuild bid' (saveBuild bid f w) =
     (if bid' = bid then map_option f (findBuild bid w) else findBuild bid' w)"
  by (simp add: findBuild_saveBuild_same findBuild_saveBuild_other)

lemma builds_saveBuild:
  "builds (saveBuild bid f w) = updateOne (\<lambda>b. buildId b = bid) f (builds w)"
  by (simp add: saveBuild_def)

lemma saveBuild_frame:
  "orders (saveBuild bid f w) = orders w" "schools (saveBuild bid f w) = schools w"
  "jobs (saveBuild bid f w) = jobs w"
  "length (builds (saveBuild bid f w)) = length (builds w)"
  by (simp_all add: saveBuild_def length_updateOne)

lemma Order_update_frame:
  "builds (Order_findByIdAndUpdate oid f w) = builds w"
  "schools (Order_findByIdAndUpdate oid f w) = schools w"
  "jobs (Order_findByIdAndUpdate oid f w) = jobs w"
  "findBuild bid (Order_findByIdAndUpdate oid f w) = findBuild bid w"
  by (simp_all add: Order_findByIdAndUpdate_def findBuild_def)

lemma findOrderById_update_same:
  "(\<And>x. order_id (f x) = order_id x) \<Longrightarrow>
   findOrderById oid (Order_findByIdAndUpdate oid f w) = map_option f (findOrderById oid w)"
  by (simp add: findOrderById_def Order_findByIdAndUpdate_def find_updateOne_same)

lemma findOrderById_saveBuild:
  "findOrderById oid (saveBuild bid f w) = findOrderById oid w"
  by (simp add: findOrderById_def saveBuild_def)

lemma findSchoolById_saveBuild:
  "findSchoolById sid (saveBuild bid f w) = findSchoolById sid w"
  by (simp add: findSchoolById_def saveBuild_def)

lemma saveBuild_saveBuild:
  "(\<And>x. buildId (g x) = buildId x) \<Longrightarrow>
   saveBuild bid f (saveBuild bid g w) = saveBuild bid (\<lambda>x. f (g x)) w"
  by (simp add: saveBuild_def updateOne_updateOne)

lemma Order_update_Order_update:
  "(\<And>x. order_id (g x) = order_id x) \<Longrightarrow>
   Order_findByIdAndUpdate oid f (Order_findByIdAndUpdate oid g w) =
   Order_findByIdAndUpdate oid (\<lambda>x. f (g x)) w"
  by (simp add: Order_findByIdAndUpdate_def updateOne_updateOne)

lemma saveBuild_Order_update:
  "saveBuild bid f (Order_findByIdAndUpdate oid h w) =
   Order_findByIdAndUpdate oid h (saveBuild bid f w)"
  by (simp add: saveBuild_def Order_findByIdAndUpdate_def)

lemma populateOrder_saveBuild:
  "populateOrder (saveBuild bid f w) userId b = populateOrder w userId b"
  by (simp add: populateOrder_def saveBuild_def)

lemma populateOrder_order_id:
  "populateOrder w userId b = Some ord \<Longrightarrow> order_id ord = order b"
  by (auto simp: populateOrder_def dest: find_SomeD)

lemma ball_updateOne_found:
  "\<forall>x\<in>set xs. Q x \<Longrightarrow> (\<And>x. find p xs = Some x \<Longrightarrow> Q (f x)) \<Longrightarrow>
   \<forall>y\<in>set (updateOne p f xs). Q y"
  by (induction xs) auto

lemma findBuild_in_builds: "findBuild bid w = Some b \<Longrightarrow> b \<in> set (builds w)"
  by (auto simp: findBuild_def find_Some_iff)

text \<open>
  Both \<^verbatim>\<open>startBuild\<close> and \<^verbatim>\<open>retryBuild\<close> enqueue under the name
  \<^verbatim>\<open>process-build\<close>, which is not a key of the queue manager: the call throws.
\<close>

lemma queue_add_process_build:
  "queue_add ''process-build'' bid w = Inl ''Queue process-build not found''"
  by (simp add: queue_add_def queue_names_def)

lemmas ex_defs = ex_order_def ex_school_def ex_build_def ex_world0_def ex_world_def
  ex_failed_build_def ex_completed_build_def ex_failed_world_def ex_completed_world_def
  ex_cancelled_world_def ex_url_def ex_sign_def six_open_stages_def ex_rerun_build_def
  ex_rerun_world_def

lemmas store_defs = findBuild_def saveBuild_def findOrderById_def findSchoolById_def
  Order_findByIdAndUpdate_def School_findByIdAndUpdate_def populateOrder_def

lemmas stage_defs = copyTemplate_def configureSystem_def generateDatabase_def
  installDependencies_def createPackage_def uploadToStorage_def path_join_def
  templateDir_def buildsDir_def packageKey_def day_seconds_def

lemmas run_defs = processBuild_def processBuildWith_def pipeline_def runStage_def
  finishBuild_def addBuildStage_def

lemmas ok_defs = env_ok_def nonempty_err_def

section \<open>The stages' results\<close>

lemma installDependencies_ok: "installDependencies env p = Inr ()"
  by (simp add: installDependencies_def split: sum.splits)

lemma copyTemplate_fallback_throws:
  "\<not> access env (path_join templateDir packageType) \<Longrightarrow>
   copyTemplate env packageType destination = Inl ''Assignment to constant variable.''"
  by (simp add: copyTemplate_def)

lemma configureSystem_order:
  "configureSystem env p sch ord = Inr u \<Longrightarrow> ord \<noteq> None"
  by (auto simp: configureSystem_def split: sum.splits option.splits)

lemma createPackage_throws:
  "createPackage env bid p = Inl ''fs.createWriteStream is not a function''"
  by (simp add: createPackage_def)


lemma copyTemplate_msg: "env_ok env \<Longrightarrow> copyTemplate env t d \<noteq> Inl []"
  by (auto simp: copyTemplate_def ok_defs Let_def)

lemma configureSystem_msg: "env_ok env \<Longrightarrow> configureSystem env p s ord \<noteq> Inl []"
  by (auto simp: configureSystem_def ok_defs split: sum.splits option.splits)

lemma generateDatabase_msg: "env_ok env \<Longrightarrow> generateDatabase env p s ord \<noteq> Inl []"
  by (auto simp: generateDatabase_def ok_defs Let_def split: sum.splits option.splits)

lemma mkdir_msg: "env_ok env \<Longrightarrow> mkdir env p \<noteq> Inl []"
  by (simp add: ok_defs)

lemmas stage_msgs = copyTemplate_msg configureSystem_msg generateDatabase_msg mkdir_msg

lemma pipeline_msg:
  assumes "env_ok env"
  shows "snd (pipeline intr env w build) \<noteq> Inl []"
  using stage_msgs [OF assms]
  by (auto simp: pipeline_def runStage_def Let_def installDependencies_ok
      createPackage_throws split: sum.splits)


section \<open>Runs and the stores they persist\<close>

lemma pipeline_last:
  "fst (pipeline intr env w build) = last (pipelineStoresWith intr env w build)"
  by (simp add: pipeline_def runStage_def pipelineStoresWith_def Let_def installDependencies_ok
      createPackage_throws split: sum.splits)

lemma pipeline_throws: "\<exists>msg. snd (pipeline intr env w build) = Inl msg"
  by (simp add: pipeline_def runStage_def Let_def installDependencies_ok
      createPackage_throws split: sum.splits)

lemma pipelineStoresWith_nonempty: "pipelineStoresWith intr env w build \<noteq> []"
  by (simp add: pipelineStoresWith_def Let_def)

lemma processStoresWith_nonempty:
  "findBuild bid w = Some b \<Longrightarrow> processStoresWith intr env w bid \<noteq> []"
  using pipelineStoresWith_nonempty [of intr env w b]
  by (simp add: processStoresWith_def Let_def split: sum.splits)

lemma processStoresWith_last:
  assumes "findBuild bid w = Some b"
  shows "last (processStoresWith intr env w bid) = fst (processBuildWith intr env w bid)"
proof -
  obtain msg where msg: "snd (pipeline intr env w b) = Inl msg"
    using pipeline_throws by blast
  then obtain w1 where w1: "pipeline intr env w b = (w1, Inl msg)"
    by (cases "pipeline intr env w b") simp
  have "w1 = last (pipelineStoresWith intr env w b)"
    using pipeline_last [of intr env w b] w1 by simp
  then show ?thesis
    using assms msg w1
    by (simp add: processStoresWith_def processBuildWith_def Let_def)
qed

lemma processStores_hd:
  assumes "findBuild bid w = Some b"
  shows "hd (processStores env w bid) =
           saveBuild bid
             (\<lambda>b. b\<lparr>status := processing, startedAt := Some (clock env 0), stages := []\<rparr>) w"
proof -
  obtain msg where msg: "snd (pipeline (\<lambda>k w. w) env w b) = Inl msg"
    using pipeline_throws by blast
  have bid: "buildId b = bid" using assms by (rule findBuild_buildId)
  have "hd (pipelineStoresWith (\<lambda>k w. w) env w b) =
          saveBuild bid
             (\<lambda>b. b\<lparr>status := processing, startedAt := Some (clock env 0), stages := []\<rparr>) w"
    using bid by (simp add: pipelineStoresWith_def Let_def)
  then show ?thesis
    using assms msg pipelineStoresWith_nonempty [of "\<lambda>k w. w" env w b]
    by (simp add: processStores_def processStoresWith_def Let_def)
qed

lemma pipelineStores_builds:
  assumes "w' \<in> set (pipelineStoresWith (\<lambda>k w. w) env w build)"
  shows "\<exists>g. builds w' = updateOne (\<lambda>x. buildId x = buildId build) g (builds w) \<and>
             (\<forall>x. status (g x) = processing \<and> downloadUrl (g x) = downloadUrl x \<and>
                  buildId (g x) = buildId x)"
proof -
  have step: "\<exists>g. builds (saveBuild bid f w) = updateOne (\<lambda>x. buildId x = bid) g (builds w) \<and>
             (\<forall>x. status (g x) = processing \<and> downloadUrl (g x) = downloadUrl x \<and>
                  buildId (g x) = buildId x)"
    if "\<And>x. status (f x) = processing \<and> downloadUrl (f x) = downloadUrl x \<and>
                  buildId (f x) = buildId x" for f bid
    using that by (auto simp: builds_saveBuild)
  show ?thesis
    using assms
    apply (simp add: pipelineStoresWith_def Let_def addBuildStage_def saveBuild_saveBuild
        createPackage_throws installDependencies_ok split: sum.splits)
    apply (elim disjE conjE; simp only: ; rule step; simp)+
    done
qed

lemma processBuild_builds:
  assumes ok: "env_ok env"
  shows "builds (fst (processBuild env w bid)) = builds w \<or>
         (\<exists>g. builds (fst (processBuild env w bid)) =
                 updateOne (\<lambda>x. buildId x = bid) g (builds w) \<and>
               (\<forall>x. downloadUrl (g x) = downloadUrl x \<and> status (g x) = failed \<and>
                    truthy (error (g x))))"
proof (cases "findBuild bid w")
  case None
  then show ?thesis by (simp add: processBuild_def processBuildWith_def)
next
  case (Some b)
  have bid: "buildId b = bid" using Some by (rule findBuild_buildId)
  obtain msg where msg: "snd (pipeline (\<lambda>k w. w) env w b) = Inl msg"
    using pipeline_throws by blast
  then obtain w1 where w1: "pipeline (\<lambda>k w. w) env w b = (w1, Inl msg)"
    by (cases "pipeline (\<lambda>k w. w) env w b") simp
  have ne: "msg \<noteq> []" using pipeline_msg [OF ok, of "\<lambda>k w. w" w b] msg by auto
  have "w1 = last (pipelineStoresWith (\<lambda>k w. w) env w b)"
    using pipeline_last [of "\<lambda>k w. w" env w b] w1 by simp
  then have "w1 \<in> set (pipelineStoresWith (\<lambda>k w. w) env w b)"
    using pipelineStoresWith_nonempty by simp
  from pipelineStores_builds [OF this] obtain g where g:
      "builds w1 = updateOne (\<lambda>x. buildId x = bid) g (builds w)"
      "\<And>x. status (g x) = processing \<and> downloadUrl (g x) = downloadUrl x \<and>
                  buildId (g x) = buildId x"
    using bid by auto
  let ?c = "\<lambda>b. b\<lparr>status := failed, error := Some msg, completedAt := Some (clock env 9)\<rparr>"
  have "builds (fst (processBuild env w bid)) =
      updateOne (\<lambda>x. buildId x = bid) (\<lambda>x. ?c (g x)) (builds w)"
    using Some w1 g
    by (simp add: processBuild_def processBuildWith_def Let_def Order_update_frame
        builds_saveBuild updateOne_updateOne)
  then show ?thesis
    using g(2) ne by (intro disjI2 exI [of _ "\<lambda>x. ?c (g x)"]) (simp add: truthy_def)
qed

section \<open>The end of a run\<close>

text \<open>
  Whatever the collaborators answer and whatever other requests do meanwhile, a run
  throws: the packaging stage is the latest point. A run of an existing build leaves it
  failed, and the stages that the run has recorded are as \<^verbatim>\<open>addBuildStage\<close> pushed
  them, since \<^verbatim>\<open>processBuild\<close> does not call \<^verbatim>\<open>completeBuildStage\<close>.
\<close>

lemma processBuildWith_throws: "\<exists>msg. snd (processBuildWith intr env w bid) = Inl msg"
proof (cases "findBuild bid w")
  case None
  then show ?thesis by (simp add: processBuildWith_def)
next
  case (Some b)
  obtain msg where "snd (pipeline intr env w b) = Inl msg"
    using pipeline_throws by blast
  then show ?thesis
    using Some by (cases "pipeline intr env w b") (simp add: processBuildWith_def Let_def)
qed

lemma processBuild_leaves_failed:
  assumes found: "findBuild bid w = Some b"
  shows "\<exists>b'. findBuild bid (fst (processBuild env w bid)) = Some b'
          \<and> status b' = failed \<and> progress b' \<in> {progress b, 20, 40, 60, 80}
          \<and> stages b' = take (length (stages b')) (six_open_stages env)"
proof -
  have bid: "buildId b = bid" using found by (rule findBuild_buildId)
  show ?thesis
    using found bid
    by (auto simp: run_defs Let_def installDependencies_ok createPackage_throws
        findBuild_saveBuild_same Order_update_frame six_open_stages_def
        split: sum.splits prod.splits)
qed

section \<open>The example stores\<close>

lemma ex_failed_world_run:
  "processBuild ex_env ex_world ''BLD-1'' =
     (ex_failed_world, Inl ''fs.createWriteStream is not a function'')"
  by (simp add: ex_defs ex_env_def run_defs stage_defs store_defs Let_def)

lemma ex_rerun_world_run:
  "hd (processStores ex_env_later ex_failed_world ''BLD-1'') = ex_rerun_world"
proof -
  have "findBuild ''BLD-1'' ex_failed_world = Some ex_failed_build"
    by (simp add: ex_defs findBuild_def)
  from processStores_hd [OF this, of ex_env_later] show ?thesis
    by (simp add: ex_defs ex_env_later_def ex_env_def saveBuild_def)
qed

lemma ex_rerun_world_persisted:
  "ex_rerun_world \<in> set (processStores ex_env_later ex_failed_world ''BLD-1'')"
proof -
  have "findBuild ''BLD-1'' ex_failed_world = Some ex_failed_build"
    by (simp add: ex_defs findBuild_def)
  then have "processStores ex_env_later ex_failed_world ''BLD-1'' \<noteq> []"
    unfolding processStores_def by (rule processStoresWith_nonempty)
  then show ?thesis
    using ex_rerun_world_run hd_in_set by metis
qed

lemma ex_cancelled_world_request:
  "cancelBuild ex_world 600 7 ''BLD-1'' =
     (ex_cancelled_world, Json 200 True ''Build cancelled successfully'' None)"
  by (simp add: ex_defs cancelBuild_def store_defs Let_def)

lemma ex_env_ok: "env_ok ex_env" "env_ok ex_env_later"
  by (simp_all add: ok_defs ex_env_def ex_env_later_def)

lemma fresh_newBuild: "fresh (newBuild now bid orderRef schoolRef userRef pkg)"
  by (simp add: fresh_def newBuild_def)

lemma ex_build_fresh: "fresh ex_build"
  by (simp add: fresh_def ex_build_def thirty_days_def)

lemma ex_world_at_rest: "at_rest ex_world"
  by (rule at_rest.initial) (simp add: ex_world_def ex_build_fresh)

lemma ex_failed_world_at_rest: "at_rest ex_failed_world"
  using at_rest.dispatch [OF ex_world_at_rest ex_env_ok(1), of "''BLD-1''"]
  by (simp only: ex_failed_world_run fst_conv)

lemma ex_cancelled_world_at_rest: "at_rest ex_cancelled_world"
  using at_rest.request [OF ex_world_at_rest, of 7 "CancelBuild 600 ''BLD-1''"]
  by (simp only: handle.simps ex_cancelled_world_request fst_conv)

lemma handleAll_none: "(\<lambda>k. handleAll []) = (\<lambda>k w. w)"
  by (simp add: fun_eq_iff)

lemma reachable_dispatch:
  assumes "reachable w" and "env_ok env"
  shows "reachable (fst (processBuildWith (\<lambda>k. handleAll (reqs k)) env w bid))"
proof (cases "findBuild bid w")
  case None
  then show ?thesis using assms(1) by (simp add: processBuildWith_def)
next
  case (Some b)
  have "last (processStoresWith (\<lambda>k. handleAll (reqs k)) env w bid)
          \<in> set (processStoresWith (\<lambda>k. handleAll (reqs k)) env w bid)"
    using processStoresWith_nonempty [OF Some] by simp
  then have "reachable (last (processStoresWith (\<lambda>k. handleAll (reqs k)) env w bid))"
    by (rule reachable.running [OF assms])
  then show ?thesis by (simp add: processStoresWith_last [OF Some])
qed

lemma at_rest_reachable: "at_rest w \<Longrightarrow> reachable w"
proof (induction rule: at_rest.induct)
  case (dispatch w env bid)
  then show ?case
    using reachable_dispatch [of w env "\<lambda>k. []" bid]
    by (simp add: processBuild_def handleAll_none)
qed (auto intro: reachable.intros)

lemma ex_rerun_world_reachable: "reachable ex_rerun_world"
proof -
  have "ex_rerun_world
          \<in> set (processStoresWith (\<lambda>k. handleAll []) ex_env_later ex_failed_world ''BLD-1'')"
    using ex_rerun_world_persisted by (simp add: processStores_def handleAll_none)
  then show ?thesis
    by (rule reachable.running [OF at_rest_reachable [OF ex_failed_world_at_rest] ex_env_ok(2)])
qed

section \<open>One build per order\<close>

lemma createBuild_never_inserts:
  "\<exists>msg. createBuild w now orderRef schoolRef userId = (w, Inl msg)"
  by (simp add: createBuild_def Build_create_def validation_errors_def Let_def
      split: option.splits)

lemma createBuild_result:
  "createBuild w now orderRef schoolRef userId = (w', r) \<Longrightarrow> w' = w \<and> (\<exists>msg. r = Inl msg)"
  using createBuild_never_inserts [of w now orderRef schoolRef userId] by auto

lemma startBuild_never_inserts: "fst (startBuild w now userId oid) = w"
  by (auto simp: startBuild_def split: option.splits prod.splits sum.splits
      dest: createBuild_result)

text \<open>
  The guard against a second build is in \<^verbatim>\<open>BuildController.startBuild\<close>: when a build
  exists for the order of the request, the request is rejected with status 400, the
  message "Build already exists for this order" and the existing buildId.
\<close>

lemma startBuild_rejects_existing:
  assumes "findConfirmedOrder w userId oid = Some ord"
    and "populateSchool w ord = Some sch"
    and "findBuildByOrder (order_id ord) w = Some existing"
  shows "startBuild w now userId oid =
           (w, Json 400 False ''Build already exists for this order''
                 (Some (buildId existing)))"
  using assms by (simp add: startBuild_def)

text \<open>
  Claim C1 (the code departs from it). Creating a build never succeeds, not even the
  first time. \<^verbatim>\<open>createBuild\<close> calls \<^verbatim>\<open>Build.create\<close> without a \<^verbatim>\<open>buildId\<close>; the schema
  requires the path, and the \<^verbatim>\<open>pre('save')\<close> hook that is meant to generate it
  ("Generate build ID before saving") runs only after validation. For the paid,
  confirmed order ORD-001, which has a school and no build, the service throws a
  ValidationError, the start request passes it to the error handler, and no build is
  inserted.
\<close>

theorem createBuild_fails_validation:
  "findConfirmedOrder ex_world0 7 ''ORD-001'' = Some ex_order
   \<and> populateSchool ex_world0 ex_order = Some ex_school
   \<and> findBuildByOrder (order_id ex_order) ex_world0 = None
   \<and> createBuild ex_world0 500 1 3 7 =
       (ex_world0, Inl ''Build validation failed: buildId: Path `buildId` is required.'')
   \<and> startBuild ex_world0 500 7 ''ORD-001'' =
       (ex_world0, Next ''Build validation failed: buildId: Path `buildId` is required.'')
   \<and> builds (fst (startBuild ex_world0 500 7 ''ORD-001'')) = []"
  by (simp add: ex_defs startBuild_def createBuild_def Build_create_def validation_errors_def
      package_enum_def findConfirmedOrder_def populateSchool_def findBuildByOrder_def
      findOrderById_def findSchoolById_def Let_def)

section \<open>Terminal states\<close>

lemma terminal_cases:
  "status b \<in> {completed, failed, cancelled} \<Longrightarrow>
   status b \<noteq> queued \<and> status b \<noteq> processing"
  by auto

text \<open>
  Claim C2, as stated, fails on the dispatch: \<^verbatim>\<open>processBuild\<close> loads the build and sets
  status processing without looking at the status it had. The build BLD-1, cancelled
  while queued and then dispatched, is persisted with status processing by the first
  save of the run, and the run leaves it failed.
\<close>

theorem dispatch_leaves_cancelled_counterexample:
  "map_option status (findBuild ''BLD-1'' ex_cancelled_world) = Some cancelled
   \<and> map_option status
        (findBuild ''BLD-1'' (hd (processStores ex_env ex_cancelled_world ''BLD-1''))) =
       Some processing
   \<and> map_option status
        (findBuild ''BLD-1'' (fst (processBuild ex_env ex_cancelled_world ''BLD-1''))) =
       Some failed"
proof -
  have found: "findBuild ''BLD-1'' ex_cancelled_world =
      Some (ex_build\<lparr>status := cancelled, completedAt := Some 600\<rparr>)"
    by (simp add: ex_defs findBuild_def)
  have "map_option status
        (findBuild ''BLD-1'' (hd (processStores ex_env ex_cancelled_world ''BLD-1''))) =
       Some processing"
    using found by (simp add: processStores_hd [OF found] findBuild_saveBuild_same)
  moreover have "map_option status
        (findBuild ''BLD-1'' (fst (processBuild ex_env ex_cancelled_world ''BLD-1''))) =
       Some failed"
    by (simp add: ex_defs ex_env_def run_defs stage_defs store_defs Let_def)
  ultimately show ?thesis using found by simp
qed

text \<open>
  Claim C2, amended. No request handler (start, retry, cancel, download, link
  regeneration) changes the status of a build that is completed, failed or cancelled,
  except the retry of the owner's failed build, which moves it to queued. The queue
  dispatch is outside this guarantee.
\<close>

theorem handlers_keep_terminal_status:
  assumes found: "findBuild bid w = Some b"
    and terminal: "status b \<in> {completed, failed, cancelled}"
  shows "\<exists>b'. findBuild bid (fst (handle w userId r)) = Some b'
          \<and> status b' =
              (if r = RetryBuild bid \<and> status b = failed \<and> populateOrder w userId b \<noteq> None
               then queued else status b)"
proof (cases r)
  case (StartBuild now oid)
  then show ?thesis using found by (simp add: startBuild_never_inserts)
next
  case (RetryBuild bid0)
  then show ?thesis
    using found
    by (cases "bid0 = bid")
      (auto simp: retryBuild_def queue_add_process_build findBuild_saveBuild
        split: option.splits)
next
  case (CancelBuild now bid0)
  then show ?thesis
    using found terminal_cases [OF terminal]
    by (cases "bid0 = bid")
      (auto simp: cancelBuild_def findBuild_saveBuild Order_update_frame Let_def
        split: option.splits)
next
  case (DownloadSystem now bid0)
  then show ?thesis
    using found
    by (cases "bid0 = bid")
      (auto simp: downloadSystem_def incrementDownloadCount_def findBuild_saveBuild
        split: option.splits)
next
  case (GenerateNewLink sign now bid0)
  then show ?thesis
    using found
    by (cases "bid0 = bid")
      (auto simp: generateNewLink_def findBuild_saveBuild split: option.splits sum.splits)
qed

theorem handlers_keep_terminal_status_witness:
  "(\<exists>b'. findBuild ''BLD-1'' (fst (handle ex_completed_world 7 (CancelBuild 2000 ''BLD-1''))) =
            Some b' \<and> status b' = completed)
   \<and> (\<exists>b'. findBuild ''BLD-1'' (fst (handle ex_failed_world 7 (RetryBuild ''BLD-1''))) =
            Some b' \<and> status b' = queued)
   \<and> (\<exists>b'. findBuild ''BLD-1'' (fst (handle ex_failed_world 7 (DownloadSystem 2000 ''BLD-1''))) =
            Some b' \<and> status b' = failed)"
proof -
  have c: "findBuild ''BLD-1'' ex_completed_world = Some ex_completed_build"
    by (simp add: ex_defs findBuild_def)
  have f: "findBuild ''BLD-1'' ex_failed_world = Some ex_failed_build"
    by (simp add: ex_defs findBuild_def)
  have tc: "status ex_completed_build \<in> {completed, failed, cancelled}"
    by (simp add: ex_defs)
  have tf: "status ex_failed_build \<in> {completed, failed, cancelled}"
    by (simp add: ex_defs)
  show ?thesis
    using handlers_keep_terminal_status [OF c tc, of 7 "CancelBuild 2000 ''BLD-1''"]
      handlers_keep_terminal_status [OF f tf, of 7 "RetryBuild ''BLD-1''"]
      handlers_keep_terminal_status [OF f tf, of 7 "DownloadSystem 2000 ''BLD-1''"]
    by (simp add: ex_defs populateOrder_def)
qed

section \<open>Failure of the packaging stage\<close>

text \<open>
  Claim C5. When the first four stages of a run succeed and the packaging stage throws,
  the run ends with the build's status failed, its error the captured message (non-empty
  when the message is), completedAt set, downloadUrl as it was before the run (unset if
  it was unset) and progress still 80; the owning order has buildStatus failed and status
  failed; and the error is rethrown to the caller.
\<close>

theorem packaging_failure_recorded:
  assumes found: "findBuild bid w = Some b"
    and dir: "mkdir env (path_join buildsDir bid) = Inr ()"
    and s1: "copyTemplate env (package b) (path_join buildsDir bid) = Inr ()"
    and s2: "configureSystem env (path_join buildsDir bid)
               (findSchoolById (school b) w) (findOrderById (order b) w) = Inr ()"
    and s3: "generateDatabase env (path_join buildsDir bid)
               (findSchoolById (school b) w) (findOrderById (order b) w) = Inr dbFile"
    and s5: "createPackage env bid (path_join buildsDir bid) = Inl msg"
  shows "snd (processBuild env w bid) = Inl msg
    \<and> (\<exists>b'. findBuild bid (fst (processBuild env w bid)) = Some b'
           \<and> status b' = failed \<and> error b' = Some msg \<and> truthy (error b') = (msg \<noteq> [])
           \<and> completedAt b' = Some (clock env 9) \<and> downloadUrl b' = downloadUrl b
           \<and> progress b' = 80)
    \<and> (\<exists>ord'. findOrderById (order b) (fst (processBuild env w bid)) = Some ord'
           \<and> buildStatus ord' = Some ''failed'' \<and> order_status ord' = ''failed'')"
proof -
  have bid: "buildId b = bid" using found by (rule findBuild_buildId)
  obtain ord where ord: "findOrderById (order b) w = Some ord"
    using configureSystem_order [OF s2] by auto
  show ?thesis
    using found bid dir s1 s2 s3 s5 ord
    by (simp add: run_defs Let_def installDependencies_ok findBuild_saveBuild_same
        Order_update_frame findOrderById_update_same findOrderById_saveBuild
        findSchoolById_saveBuild truthy_def)
qed

theorem packaging_failure_recorded_witness:
  "snd (processBuild ex_env ex_world ''BLD-1'') =
     Inl ''fs.createWriteStream is not a function''
   \<and> (\<exists>b'. findBuild ''BLD-1'' (fst (processBuild ex_env ex_world ''BLD-1'')) = Some b'
           \<and> status b' = failed \<and> error b' = Some ''fs.createWriteStream is not a function''
           \<and> truthy (error b') \<and> completedAt b' = Some 1009 \<and> downloadUrl b' = None
           \<and> progress b' = 80)
   \<and> (\<exists>ord'. findOrderById 1 (fst (processBuild ex_env ex_world ''BLD-1'')) = Some ord'
           \<and> buildStatus ord' = Some ''failed'' \<and> order_status ord' = ''failed'')"
proof -
  have found: "findBuild ''BLD-1'' ex_world = Some ex_build"
    by (simp add: ex_defs findBuild_def)
  have dir: "mkdir ex_env (path_join buildsDir ''BLD-1'') = Inr ()"
    by (simp add: ex_env_def)
  have s1: "copyTemplate ex_env (package ex_build) (path_join buildsDir ''BLD-1'') = Inr ()"
    by (simp add: ex_env_def copyTemplate_def)
  have s2: "configureSystem ex_env (path_join buildsDir ''BLD-1'')
              (findSchoolById (school ex_build) ex_world)
              (findOrderById (order ex_build) ex_world) = Inr ()"
    by (simp add: ex_env_def configureSystem_def ex_defs findSchoolById_def findOrderById_def)
  have s3: "generateDatabase ex_env (path_join buildsDir ''BLD-1'')
              (findSchoolById (school ex_build) ex_world)
              (findOrderById (order ex_build) ex_world) =
              Inr ''builds/BLD-1/database/initial-data.json''"
    by (simp add: ex_env_def generateDatabase_def ex_defs findSchoolById_def findOrderById_def
        path_join_def buildsDir_def)
  have s5: "createPackage ex_env ''BLD-1'' (path_join buildsDir ''BLD-1'') =
              Inl ''fs.createWriteStream is not a function''"
    by (simp add: createPackage_def)
  show ?thesis
    using packaging_failure_recorded [OF found dir s1 s2 s3 s5]
    by (simp add: ex_build_def ex_env_def)
qed

section \<open>Retry\<close>

text \<open>
  Claim C6. Retry is permitted only on a build with status failed: a request for a build
  that is missing, belongs to another user or has any other status leaves the store as
  it is. On a failed build it resets exactly the run-scoped fields (status queued,
  progress 0, stages empty, error, startedAt and completedAt null); buildId, order,
  school, user, package, downloadCount and every other field of the build keep their
  values, and no other build, order or school changes.
\<close>

theorem retryBuild_resets_run_fields:
  "case findBuild bid w of
     None \<Rightarrow> fst (retryBuild w userId bid) = w
   | Some b \<Rightarrow>
       if populateOrder w userId b \<noteq> None \<and> status b = failed
       then findBuild bid (fst (retryBuild w userId bid)) =
              Some (b\<lparr>status := queued, progress := 0, stages := [], error := None,
                      startedAt := None, completedAt := None\<rparr>)
            \<and> (\<forall>bid'. bid' \<noteq> bid \<longrightarrow>
                  findBuild bid' (fst (retryBuild w userId bid)) = findBuild bid' w)
            \<and> length (builds (fst (retryBuild w userId bid))) = length (builds w)
            \<and> orders (fst (retryBuild w userId bid)) = orders w
            \<and> schools (fst (retryBuild w userId bid)) = schools w
       else fst (retryBuild w userId bid) = w"
  by (auto simp: retryBuild_def queue_add_process_build findBuild_saveBuild_same
      findBuild_saveBuild_other saveBuild_frame split: option.splits)

theorem retryBuild_resets_run_fields_witness:
  "findBuild ''BLD-1'' (fst (retryBuild ex_failed_world 7 ''BLD-1'')) =
     Some (ex_failed_build\<lparr>status := queued, progress := 0, stages := [], error := None,
             startedAt := None, completedAt := None\<rparr>)
   \<and> status ex_failed_build = failed
   \<and> fst (retryBuild ex_completed_world 7 ''BLD-1'') = ex_completed_world"
  using retryBuild_resets_run_fields [where bid = "''BLD-1''" and w = ex_failed_world and userId = 7]
    retryBuild_resets_run_fields [where bid = "''BLD-1''" and w = ex_completed_world and userId = 7]
  by (simp add: ex_defs findBuild_def populateOrder_def)

section \<open>Cancellation\<close>

lemma cancelBuild_effect:
  "case findBuild bid w of
     None \<Rightarrow> fst (cancelBuild w now userId bid) = w
   | Some b \<Rightarrow>
       (case populateOrder w userId b of
          None \<Rightarrow> fst (cancelBuild w now userId bid) = w
        | Some ord \<Rightarrow>
            if status b = queued \<or> status b = processing
            then snd (cancelBuild w now userId bid) =
                   Json 200 True ''Build cancelled successfully'' None
                 \<and> findBuild bid (fst (cancelBuild w now userId bid)) =
                     Some (b\<lparr>status := cancelled, completedAt := Some now\<rparr>)
                 \<and> (\<forall>bid'. bid' \<noteq> bid \<longrightarrow>
                       findBuild bid' (fst (cancelBuild w now userId bid)) = findBuild bid' w)
                 \<and> findOrderById (order_id ord) (fst (cancelBuild w now userId bid)) =
                     map_option (\<lambda>ord. ord\<lparr>buildStatus := Some ''cancelled'',
                                             order_status := ''cancelled''\<rparr>)
                       (findOrderById (order_id ord) w)
            else cancelBuild w now userId bid =
                   (w, Json 400 False ''Only queued or processing builds can be cancelled'' None))"
  by (auto simp: cancelBuild_def findBuild_saveBuild_same findBuild_saveBuild_other
      Order_update_frame findOrderById_update_same findOrderById_saveBuild
      split: option.splits)

text \<open>
  A cancel request for the running build, handled while one of its stages is awaited,
  leaves no trace: the writes of the catch block overwrite the status, completedAt and
  the order's fields.
\<close>

lemma cancel_during_stage_no_effect:
  assumes found: "findBuild bid w = Some b" and k: "k \<in> {1, 2, 3, 4, 5, 6}"
  shows "processBuildWith (cancelDuring k now userId bid) env w bid = processBuild env w bid"
proof -
  have bid: "buildId b = bid" using found by (rule findBuild_buildId)
  note simps = run_defs Let_def installDependencies_ok createPackage_throws cancelDuring_def
    cancelBuild_def findBuild_saveBuild_same populateOrder_saveBuild saveBuild_saveBuild
    saveBuild_Order_update Order_update_Order_update
    findOrderById_saveBuild findSchoolById_saveBuild
  consider "k = 1" | "k = 2" | "k = 3" | "k = 4" | "k = 5" | "k = 6"
    using k by auto
  then show ?thesis
  proof cases
    case 1
    then show ?thesis
      using found bid
      by (auto simp: simps split: sum.splits prod.splits option.splits
          dest: populateOrder_order_id)
  next
    case 2
    then show ?thesis
      using found bid
      by (auto simp: simps split: sum.splits prod.splits option.splits
          dest: populateOrder_order_id)
  next
    case 3
    then show ?thesis
      using found bid
      by (auto simp: simps split: sum.splits prod.splits option.splits
          dest: populateOrder_order_id)
  next
    case 4
    then show ?thesis
      using found bid
      by (auto simp: simps split: sum.splits prod.splits option.splits
          dest: populateOrder_order_id)
  next
    case 5
    then show ?thesis
      using found bid
      by (auto simp: simps split: sum.splits prod.splits option.splits
          dest: populateOrder_order_id)
  next
    case 6
    then show ?thesis
      using found bid
      by (auto simp: simps split: sum.splits prod.splits option.splits
          dest: populateOrder_order_id)
  qed
qed

lemma cancel_outside_stages_no_effect:
  assumes "k \<notin> {1, 2, 3, 4, 5, 6}"
  shows "processBuildWith (cancelDuring k now userId bid) env w bid = processBuild env w bid"
proof (cases "findBuild bid w")
  case None
  then show ?thesis by (simp add: processBuild_def processBuildWith_def)
next
  case (Some b)
  have bid: "buildId b = bid" using Some by (rule findBuild_buildId)
  have h: "cancelDuring k now userId bid j W = W" if "j \<in> {1, 2, 3, 4, 5, 6}" for j W
    using that assms by (auto simp: cancelDuring_def)
  show ?thesis
    using Some bid
    by (auto simp: run_defs Let_def installDependencies_ok createPackage_throws h
        split: sum.splits prod.splits option.splits)
qed

lemma cancel_during_run_no_effect:
  "processBuildWith (cancelDuring k now userId bid) env w bid = processBuild env w bid"
proof (cases "findBuild bid w")
  case None
  then show ?thesis by (simp add: processBuild_def processBuildWith_def)
next
  case (Some b)
  show ?thesis
  proof (cases "k \<in> {1, 2, 3, 4, 5, 6}")
    case True
    with Some show ?thesis by (rule cancel_during_stage_no_effect)
  next
    case False
    then show ?thesis by (rule cancel_outside_stages_no_effect)
  qed
qed

text \<open>
  Claim C8, as stated, fails in its last part: the orchestrator never reads the status
  again after loading the build, so a cancel request handled during a stage does not
  stop the run. Here the owner cancels BLD-1 while the configuration stage (progress 20)
  is awaited: the run goes on to persist progress 40, 60 and 80 and ends with status
  failed.
\<close>

theorem cancel_during_run_counterexample:
  "map_option progress
     (findBuild ''BLD-1''
        (fst (processBuildWith (cancelDuring 2 1500 7 ''BLD-1'') ex_env ex_world ''BLD-1''))) =
     Some 80
   \<and> map_option status
       (findBuild ''BLD-1''
          (fst (processBuildWith (cancelDuring 2 1500 7 ''BLD-1'') ex_env ex_world ''BLD-1''))) =
       Some failed"
  by (simp add: cancelDuring_def cancelBuild_def ex_defs ex_env_def run_defs stage_defs
      store_defs Let_def)

text \<open>
  Claim C8, amended. A cancel request is accepted only for the owner's build while its
  status is queued or processing; any other request is rejected and leaves the store as
  it is. When accepted it sets status cancelled and completedAt to the time of the
  request, changes no other build, and sets buildStatus and status of the order to
  cancelled. The orchestrator has no cancellation check: a run in flight continues, and
  a cancel request for its build handled during any stage does not change the result
  of the run.
\<close>

theorem cancelBuild_only_queued_or_processing:
  "(case findBuild bid w of
      None \<Rightarrow> fst (cancelBuild w now userId bid) = w
    | Some b \<Rightarrow>
        (case populateOrder w userId b of
           None \<Rightarrow> fst (cancelBuild w now userId bid) = w
         | Some ord \<Rightarrow>
             if status b = queued \<or> status b = processing
             then snd (cancelBuild w now userId bid) =
                    Json 200 True ''Build cancelled successfully'' None
                  \<and> findBuild bid (fst (cancelBuild w now userId bid)) =
                      Some (b\<lparr>status := cancelled, completedAt := Some now\<rparr>)
                  \<and> (\<forall>bid'. bid' \<noteq> bid \<longrightarrow>
                        findBuild bid' (fst (cancelBuild w now userId bid)) = findBuild bid' w)
                  \<and> findOrderById (order_id ord) (fst (cancelBuild w now userId bid)) =
                      map_option (\<lambda>ord. ord\<lparr>buildStatus := Some ''cancelled'',
                                              order_status := ''cancelled''\<rparr>)
                        (findOrderById (order_id ord) w)
             else cancelBuild w now userId bid =
                    (w, Json 400 False ''Only queued or processing builds can be cancelled''
                          None)))
   \<and> processBuildWith (cancelDuring k now userId bid) env w bid = processBuild env w bid"
  using cancelBuild_effect [where bid = bid and w = w and now = now and userId = userId]
    cancel_during_run_no_effect
      [where k = k and now = now and userId = userId and bid = bid and env = env and w = w]
  by simp

theorem cancelBuild_only_queued_or_processing_witness:
  "snd (cancelBuild ex_world 600 7 ''BLD-1'') =
     Json 200 True ''Build cancelled successfully'' None
   \<and> findBuild ''BLD-1'' (fst (cancelBuild ex_world 600 7 ''BLD-1'')) =
       Some (ex_build\<lparr>status := cancelled, completedAt := Some 600\<rparr>)
   \<and> findOrderById 1 (fst (cancelBuild ex_world 600 7 ''BLD-1'')) =
       Some (ex_order\<lparr>buildStatus := Some ''cancelled'', order_status := ''cancelled''\<rparr>)
   \<and> cancelBuild ex_completed_world 600 7 ''BLD-1'' =
       (ex_completed_world,
        Json 400 False ''Only queued or processing builds can be cancelled'' None)
   \<and> processBuildWith (cancelDuring 2 600 7 ''BLD-1'') ex_env ex_world ''BLD-1'' =
       processBuild ex_env ex_world ''BLD-1''"
  using cancelBuild_only_queued_or_processing
          [where bid = "''BLD-1''" and w = ex_world and now = 600 and userId = 7 and k = 2
             and env = ex_env]
    cancelBuild_only_queued_or_processing
          [where bid = "''BLD-1''" and w = ex_completed_world and now = 600 and userId = 7]
  by (simp add: ex_defs findBuild_def populateOrder_def findOrderById_def)

section \<open>Status and result fields\<close>

lemma fresh_inv: "fresh b \<Longrightarrow> rest_inv b"
  by (simp add: fresh_def rest_inv_def truthy_def)

lemma rest_inv_build_inv: "rest_inv b \<Longrightarrow> build_inv b"
  by (auto simp: rest_inv_def build_inv_def)

lemma retryBuild_builds:
  "builds (fst (retryBuild w userId bid)) = builds w \<or>
   builds (fst (retryBuild w userId bid)) =
     updateOne (\<lambda>b. buildId b = bid)
       (\<lambda>b. b\<lparr>status := queued, progress := 0, stages := [], error := None,
               startedAt := None, completedAt := None\<rparr>) (builds w)"
  by (simp add: retryBuild_def queue_add_process_build builds_saveBuild split: option.splits)

lemma cancelBuild_builds:
  "builds (fst (cancelBuild w now userId bid)) = builds w \<or>
   (\<exists>b. findBuild bid w = Some b \<and> (status b = queued \<or> status b = processing) \<and>
      builds (fst (cancelBuild w now userId bid)) =
        updateOne (\<lambda>b. buildId b = bid)
          (\<lambda>b. b\<lparr>status := cancelled, completedAt := Some now\<rparr>) (builds w))"
  by (auto simp: cancelBuild_def builds_saveBuild Order_update_frame Let_def
      split: option.splits)

lemma downloadSystem_builds:
  "builds (fst (downloadSystem w now userId bid)) = builds w \<or>
   builds (fst (downloadSystem w now userId bid)) =
     updateOne (\<lambda>b. buildId b = bid)
       (\<lambda>b. b\<lparr>downloadCount := downloadCount b + 1, lastDownloadAt := Some now\<rparr>) (builds w)"
  by (simp add: downloadSystem_def incrementDownloadCount_def builds_saveBuild
      split: option.splits)

lemma generateNewLink_builds:
  "builds (fst (generateNewLink sign w now userId bid)) = builds w \<or>
   (\<exists>b. findBuild bid w = Some b \<and> status b = completed)"
  by (auto simp: generateNewLink_def split: option.splits sum.splits)

lemma handle_preserves_inv:
  assumes inv: "\<forall>x\<in>set (builds w). build_inv x"
  shows "\<forall>y\<in>set (builds (fst (handle w userId r))). build_inv y"
proof (cases r)
  case (StartBuild now oid)
  then show ?thesis using inv by (simp add: startBuild_never_inserts)
next
  case (RetryBuild bid)
  have "\<forall>y\<in>set (updateOne (\<lambda>b. buildId b = bid)
       (\<lambda>b. b\<lparr>status := queued, progress := 0, stages := [], error := None,
               startedAt := None, completedAt := None\<rparr>) (builds w)). build_inv y"
    using inv by (rule ball_updateOne_pres) (simp add: build_inv_def)
  then show ?thesis using RetryBuild inv retryBuild_builds [of w userId bid] by auto
next
  case (CancelBuild now bid)
  have "\<forall>y\<in>set (updateOne (\<lambda>b. buildId b = bid)
       (\<lambda>b. b\<lparr>status := cancelled, completedAt := Some now\<rparr>) (builds w)). build_inv y"
    using inv by (rule ball_updateOne_pres) (simp add: build_inv_def)
  then show ?thesis using CancelBuild inv cancelBuild_builds [of w now userId bid] by auto
next
  case (DownloadSystem now bid)
  have "\<forall>y\<in>set (updateOne (\<lambda>b. buildId b = bid)
       (\<lambda>b. b\<lparr>downloadCount := downloadCount b + 1, lastDownloadAt := Some now\<rparr>)
       (builds w)). build_inv y"
    using inv by (rule ball_updateOne_pres) (simp add: build_inv_def)
  then show ?thesis using DownloadSystem inv downloadSystem_builds [of w now userId bid] by auto
next
  case (GenerateNewLink sign now bid)
  have "\<not> (\<exists>b. findBuild bid w = Some b \<and> status b = completed)"
    using inv by (auto simp: build_inv_def dest: findBuild_in_builds)
  then show ?thesis
    using GenerateNewLink inv generateNewLink_builds [of sign w now userId bid] by auto
qed

lemma handle_preserves_rest:
  assumes inv: "\<forall>x\<in>set (builds w). rest_inv x"
  shows "\<forall>y\<in>set (builds (fst (handle w userId r))). rest_inv y"
proof (cases r)
  case (StartBuild now oid)
  then show ?thesis using inv by (simp add: startBuild_never_inserts)
next
  case (RetryBuild bid)
  have "\<forall>y\<in>set (updateOne (\<lambda>b. buildId b = bid)
       (\<lambda>b. b\<lparr>status := queued, progress := 0, stages := [], error := None,
               startedAt := None, completedAt := None\<rparr>) (builds w)). rest_inv y"
    using inv by (rule ball_updateOne_pres) (simp add: rest_inv_def truthy_def)
  then show ?thesis using RetryBuild inv retryBuild_builds [of w userId bid] by auto
next
  case (CancelBuild now bid)
  have "\<forall>y\<in>set (updateOne (\<lambda>b. buildId b = bid)
       (\<lambda>b. b\<lparr>status := cancelled, completedAt := Some now\<rparr>) (builds w)). rest_inv y"
    if "findBuild bid w = Some b" and "status b = queued \<or> status b = processing" for b
  proof (rule ball_updateOne_found [OF inv])
    fix x assume "find (\<lambda>b. buildId b = bid) (builds w) = Some x"
    then have "x = b" using that(1) by (simp add: findBuild_def)
    moreover have "rest_inv b" using inv that(1) by (auto dest: findBuild_in_builds)
    ultimately show "rest_inv (x\<lparr>status := cancelled, completedAt := Some now\<rparr>)"
      using that(2) by (auto simp: rest_inv_def)
  qed
  then show ?thesis using CancelBuild inv cancelBuild_builds [of w now userId bid] by auto
next
  case (DownloadSystem now bid)
  have "\<forall>y\<in>set (updateOne (\<lambda>b. buildId b = bid)
       (\<lambda>b. b\<lparr>downloadCount := downloadCount b + 1, lastDownloadAt := Some now\<rparr>)
       (builds w)). rest_inv y"
    using inv by (rule ball_updateOne_pres) (simp add: rest_inv_def)
  then show ?thesis using DownloadSystem inv downloadSystem_builds [of w now userId bid] by auto
next
  case (GenerateNewLink sign now bid)
  have "\<not> (\<exists>b. findBuild bid w = Some b \<and> status b = completed)"
    using inv by (auto simp: rest_inv_def dest: findBuild_in_builds)
  then show ?thesis
    using GenerateNewLink inv generateNewLink_builds [of sign w now userId bid] by auto
qed

lemma processBuild_preserves_rest:
  assumes inv: "\<forall>x\<in>set (builds w). rest_inv x" and ok: "env_ok env"
  shows "\<forall>y\<in>set (builds (fst (processBuild env w bid))). rest_inv y"
proof -
  have "\<forall>y\<in>set (updateOne (\<lambda>x. buildId x = bid) g (builds w)). rest_inv y"
    if "\<forall>x. downloadUrl (g x) = downloadUrl x \<and> status (g x) = failed \<and> truthy (error (g x))"
    for g
    using inv by (rule ball_updateOne_pres) (simp add: rest_inv_def that)
  then show ?thesis using inv processBuild_builds [OF ok, of w bid] by auto
qed

lemma handleAll_preserves_inv:
  "\<forall>x\<in>set (builds w). build_inv x \<Longrightarrow> \<forall>y\<in>set (builds (handleAll rs w)). build_inv y"
proof (induction rs arbitrary: w)
  case Nil
  then show ?case by simp
next
  case (Cons ur rs)
  obtain u r where ur: "ur = (u, r)" by (cases ur)
  show ?case
    using Cons.IH [OF handle_preserves_inv [OF Cons.prems, of u r]] ur by simp
qed

lemma saveBuild_preserves_inv:
  "\<forall>x\<in>set (builds w). build_inv x \<Longrightarrow> (\<And>x. build_inv x \<Longrightarrow> build_inv (f x)) \<Longrightarrow>
   \<forall>y\<in>set (builds (saveBuild bid f w)). build_inv y"
  unfolding builds_saveBuild by (rule ball_updateOne_pres)

lemma addBuildStage_preserves_inv:
  "\<forall>x\<in>set (builds w). build_inv x \<Longrightarrow>
   \<forall>y\<in>set (builds (addBuildStage bid nm t w)). build_inv y"
  unfolding addBuildStage_def by (rule saveBuild_preserves_inv) (simp_all add: build_inv_def)

lemma pipelineStoresWith_preserve_inv:
  assumes intr: "\<And>k v. \<forall>x\<in>set (builds v). build_inv x \<Longrightarrow>
                        \<forall>x\<in>set (builds (intr k v)). build_inv x"
    and inv: "\<forall>x\<in>set (builds w). build_inv x"
    and w': "w' \<in> set (pipelineStoresWith intr env w build)"
  shows "\<forall>y\<in>set (builds w'). build_inv y"
proof -
  note rules = intr addBuildStage_preserves_inv saveBuild_preserves_inv
  have start: "\<And>x t. build_inv x \<Longrightarrow>
      build_inv (x\<lparr>status := processing, startedAt := t, stages := []\<rparr>)"
    by (simp add: build_inv_def)
  have prog: "\<And>x p. build_inv x \<Longrightarrow> build_inv (x\<lparr>progress := p\<rparr>)"
    by (simp add: build_inv_def)
  show ?thesis
    using w'
    apply (simp add: pipelineStoresWith_def Let_def createPackage_throws installDependencies_ok
        split: sum.splits)
    apply (elim disjE conjE; simp only: ; (intro rules inv start prog; assumption?)+)+
    done
qed

lemma processStoresWith_preserve_inv:
  assumes intr: "\<And>k v. \<forall>x\<in>set (builds v). build_inv x \<Longrightarrow>
                        \<forall>x\<in>set (builds (intr k v)). build_inv x"
    and inv: "\<forall>x\<in>set (builds w). build_inv x" and ok: "env_ok env"
    and w': "w' \<in> set (processStoresWith intr env w bid)"
  shows "\<forall>y\<in>set (builds w'). build_inv y"
proof (cases "findBuild bid w")
  case None
  then show ?thesis using w' by (simp add: processStoresWith_def)
next
  case (Some b)
  obtain msg where msg: "snd (pipeline intr env w b) = Inl msg"
    using pipeline_throws by blast
  have ne: "msg \<noteq> []" using pipeline_msg [OF ok, of intr w b] msg by auto
  have mid: "\<forall>y\<in>set (builds v). build_inv y"
    if "v \<in> set (pipelineStoresWith intr env w b)" for v
    using intr inv that by (rule pipelineStoresWith_preserve_inv)
  let ?c = "\<lambda>b. b\<lparr>status := failed, error := Some msg, completedAt := Some (clock env 9)\<rparr>"
  have lastinv: "\<forall>y\<in>set (builds (last (pipelineStoresWith intr env w b))). build_inv y"
    using pipelineStoresWith_nonempty by (intro mid) simp
  have catch:
    "\<forall>y\<in>set (builds (saveBuild bid ?c (last (pipelineStoresWith intr env w b)))). build_inv y"
    using lastinv
  proof (rule saveBuild_preserves_inv)
    fix x assume "build_inv x"
    then show "build_inv (?c x)" using ne by (simp add: build_inv_def truthy_def)
  qed
  have "w' \<in> set (pipelineStoresWith intr env w b)
      \<or> builds w' = builds (saveBuild bid ?c (last (pipelineStoresWith intr env w b)))"
    using w' Some msg by (auto simp: processStoresWith_def Let_def Order_update_frame)
  then show ?thesis using mid catch by auto
qed

lemma at_rest_inv: "at_rest w \<Longrightarrow> \<forall>x\<in>set (builds w). rest_inv x"
proof (induction rule: at_rest.induct)
  case (initial w)
  then show ?case by (auto intro: fresh_inv)
next
  case (request w userId r)
  then show ?case by (intro handle_preserves_rest)
next
  case (create w now orderRef schoolRef userId)
  then show ?case
    using createBuild_never_inserts [of w now orderRef schoolRef userId] by auto
next
  case (dispatch w env bid)
  then show ?case by (intro processBuild_preserves_rest)
next
  case (external w os ss)
  then show ?case by simp
qed

lemma reachable_inv: "reachable w \<Longrightarrow> \<forall>x\<in>set (builds w). build_inv x"
proof (induction rule: reachable.induct)
  case (initial w)
  then show ?case by (auto intro: fresh_inv rest_inv_build_inv)
next
  case (request w userId r)
  then show ?case by (intro handle_preserves_inv)
next
  case (create w now orderRef schoolRef userId)
  then show ?case
    using createBuild_never_inserts [of w now orderRef schoolRef userId] by auto
next
  case (running w env w' reqs bid)
  show ?case
  proof (rule processStoresWith_preserve_inv [OF _ running.IH running.hyps(2,3)])
    fix k and v :: world
    assume "\<forall>x\<in>set (builds v). build_inv x"
    then show "\<forall>x\<in>set (builds (handleAll (reqs k) v)). build_inv x"
      by (rule handleAll_preserves_inv)
  qed
next
  case (external w os ss)
  then show ?case by simp
qed

text \<open>
  Claim C9, as stated, fails in one direction of its second part: a build can have a
  non-empty error while its status is not failed. \<^verbatim>\<open>processBuild\<close> sets status
  processing in its first save and leaves the error as it is. The fresh build BLD-1 is
  dispatched and fails at the packaging stage. The queue gives a job three attempts, so
  it dispatches the job again: the first save of the second run persists the build with
  status processing and the error of the first run, and the database holds this store
  (\<^verbatim>\<open>getBuildLogs\<close> returns both fields) until a stage of the run throws.
\<close>

theorem redispatched_build_keeps_error_counterexample:
  "at_rest ex_failed_world
   \<and> ex_rerun_world \<in> set (processStores ex_env_later ex_failed_world ''BLD-1'')
   \<and> reachable ex_rerun_world
   \<and> ex_rerun_build \<in> set (builds ex_rerun_world)
   \<and> status ex_rerun_build = processing
   \<and> error ex_rerun_build = Some ''fs.createWriteStream is not a function''
   \<and> \<not> (truthy (error ex_rerun_build) \<longleftrightarrow> status ex_rerun_build = failed)"
  using ex_failed_world_at_rest ex_rerun_world_persisted ex_rerun_world_reachable
  by (simp add: ex_rerun_world_def ex_rerun_build_def ex_failed_build_def truthy_def)

text \<open>
  Claim C9, amended. In every store that the database holds (reached from a store of
  fresh builds by requests, direct \<^verbatim>\<open>createBuild\<close> calls, runs of \<^verbatim>\<open>processBuild\<close>
  with their failure path, and changes of orders and schools; between operations or
  while a run is in progress; the file system's error messages being non-empty), a build
  has progress 100 and a non-empty downloadUrl if and only if its status is completed,
  and a failed build has a non-empty error. In the stores between operations that do
  not overlap, moreover, a build has a non-empty error if and only if it is failed.
\<close>

theorem reachable_status_and_result:
  assumes "reachable w" and "b \<in> set (builds w)"
  shows "((progress b = 100 \<and> truthy (downloadUrl b)) \<longleftrightarrow> status b = completed)
       \<and> (status b = failed \<longrightarrow> truthy (error b))
       \<and> (at_rest w \<longrightarrow> (truthy (error b) \<longleftrightarrow> status b = failed))"
proof -
  have "build_inv b" using reachable_inv [OF assms(1)] assms(2) by simp
  moreover have "rest_inv b" if "at_rest w" using at_rest_inv [OF that] assms(2) by simp
  ultimately show ?thesis by (auto simp: build_inv_def rest_inv_def truthy_def)
qed

theorem reachable_status_and_result_witness:
  "reachable ex_failed_world \<and> at_rest ex_failed_world
   \<and> ex_failed_build \<in> set (builds ex_failed_world)
   \<and> status ex_failed_build = failed \<and> truthy (error ex_failed_build)
   \<and> \<not> (progress ex_failed_build = 100 \<and> truthy (downloadUrl ex_failed_build))
   \<and> reachable ex_rerun_world \<and> ex_rerun_build \<in> set (builds ex_rerun_world)
   \<and> status ex_rerun_build \<noteq> completed
   \<and> \<not> (progress ex_rerun_build = 100 \<and> truthy (downloadUrl ex_rerun_build))"
proof -
  have f: "ex_failed_build \<in> set (builds ex_failed_world)"
    by (simp add: ex_failed_world_def)
  have r: "ex_rerun_build \<in> set (builds ex_rerun_world)"
    by (simp add: ex_rerun_world_def)
  have sf: "status ex_failed_build = failed" by (simp add: ex_failed_build_def)
  have sr: "status ex_rerun_build \<noteq> completed" by (simp add: ex_rerun_build_def)
  show ?thesis
    using reachable_status_and_result [OF at_rest_reachable [OF ex_failed_world_at_rest] f]
      reachable_status_and_result [OF ex_rerun_world_reachable r]
      at_rest_reachable [OF ex_failed_world_at_rest] ex_failed_world_at_rest
      ex_rerun_world_reachable f r sf sr
    by simp
qed

section \<open>Link regeneration\<close>

text \<open>
  Claim C10. Link regeneration succeeds only for the owner's build with status completed
  whose expiresAt has not passed; every other request is rejected and leaves the store
  as it is. On success the downloadUrl becomes the URL that the object store signs for
  the key builds/<buildId>/school-system.zip with a lifetime of 24 hours, and nothing
  else changes: the other fields of the build (downloadCount, expiresAt, status,
  progress, stages), the other builds, the orders and the schools. When the signing
  itself throws, the error is passed on and the store is unchanged.
\<close>

theorem generateNewLink_replaces_url_only:
  "case findBuild bid w of
     None \<Rightarrow> fst (generateNewLink sign w now userId bid) = w
   | Some b \<Rightarrow>
       if populateOrder w userId b \<noteq> None \<and> status b = completed \<and> \<not> expired now b
       then (case sign (''builds/'' @ bid @ ''/school-system.zip'') (24 * 60 * 60) of
               Inl msg \<Rightarrow> generateNewLink sign w now userId bid = (w, Next msg)
             | Inr url \<Rightarrow>
                 snd (generateNewLink sign w now userId bid) =
                   Json 200 True ''New download link generated'' (Some url)
                 \<and> findBuild bid (fst (generateNewLink sign w now userId bid)) =
                     Some (b\<lparr>downloadUrl := Some url\<rparr>)
                 \<and> (\<forall>bid'. bid' \<noteq> bid \<longrightarrow>
                       findBuild bid' (fst (generateNewLink sign w now userId bid)) =
                       findBuild bid' w)
                 \<and> length (builds (fst (generateNewLink sign w now userId bid))) =
                     length (builds w)
                 \<and> orders (fst (generateNewLink sign w now userId bid)) = orders w
                 \<and> schools (fst (generateNewLink sign w now userId bid)) = schools w)
       else fst (generateNewLink sign w now userId bid) = w
            \<and> (\<exists>code msg. snd (generateNewLink sign w now userId bid) =
                   Json code False msg None)"
  by (auto simp: generateNewLink_def packageKey_def day_seconds_def findBuild_saveBuild_same
      findBuild_saveBuild_other saveBuild_frame split: option.splits sum.splits)

theorem generateNewLink_replaces_url_only_witness:
  "findBuild ''BLD-1'' (fst (generateNewLink ex_sign ex_completed_world 2000 7 ''BLD-1'')) =
     Some (ex_completed_build
             \<lparr>downloadUrl := Some ''https://signed/new/builds/BLD-1/school-system.zip''\<rparr>)
   \<and> fst (generateNewLink ex_sign ex_completed_world 2592000501 7 ''BLD-1'') = ex_completed_world
   \<and> fst (generateNewLink ex_sign ex_failed_world 2000 7 ''BLD-1'') = ex_failed_world"
  using generateNewLink_replaces_url_only
      [where bid = "''BLD-1''" and w = ex_completed_world and sign = ex_sign and now = 2000
         and userId = 7]
    generateNewLink_replaces_url_only
      [where bid = "''BLD-1''" and w = ex_completed_world and sign = ex_sign
         and now = 2592000501 and userId = 7]
    generateNewLink_replaces_url_only
      [where bid = "''BLD-1''" and w = ex_failed_world and sign = ex_sign and now = 2000
         and userId = 7]
  by (simp add: ex_defs findBuild_def populateOrder_def expired_def)

section \<open>Template fallback\<close>

text \<open>
  Claim C4 (the code departs from it). Only the base template exists. For the tier
  enterprise, whose own template directory is absent, \<^verbatim>\<open>copyTemplate\<close> does not fall
  back to the base template: the assignment to the constant \<^verbatim>\<open>templatePath\<close> in the
  catch block throws a TypeError and nothing is copied.
\<close>

theorem copyTemplate_fallback_assigns_const:
  "access ex_env_base_only ''templates/base-system''
   \<and> \<not> access ex_env_base_only ''templates/enterprise''
   \<and> copyTemplate ex_env_base_only ''enterprise'' ''builds/BLD-1'' =
       Inl ''Assignment to constant variable.''"
  by (simp add: ex_env_base_only_def ex_env_def copyTemplate_def path_join_def templateDir_def)


section \<open>Download accounting\<close>

lemma downloadSystem_counts:
  assumes "findBuild bid w = Some b" and "populateOrder w userId b = Some ord"
    and "status b = completed" and "truthy (downloadUrl b)"
  shows "snd (downloadSystem w now userId bid) = Redirect (the (downloadUrl b))
    \<and> findBuild bid (fst (downloadSystem w now userId bid)) =
        Some (b\<lparr>downloadCount := downloadCount b + 1, lastDownloadAt := Some now\<rparr>)"
  using assms
  by (simp add: downloadSystem_def incrementDownloadCount_def findBuild_saveBuild_same)


text \<open>
  Claim C7 (the code departs from it). A download of the owner's completed build adds 1
  to downloadCount and stamps lastDownloadAt, as \<open>downloadSystem_counts\<close> shows, but
  \<^verbatim>\<open>downloadSystem\<close> never reads expiresAt: one millisecond after the expiry of BLD-1 the
  request is still redirected to the download URL and the count goes from 0 to 1.
  The handlers \<^verbatim>\<open>generateNewLink\<close> and \<^verbatim>\<open>verifyDownload\<close> do compare expiresAt with
  the clock. (The schema's TTL index on expiresAt lets the database delete an expired
  document, but only when its background task next runs; until then the document is
  served.)
\<close>

theorem downloadSystem_ignores_expiry:
  "expired 2592000501 ex_completed_build
   \<and> snd (downloadSystem ex_completed_world 2592000501 7 ''BLD-1'') =
       Redirect ''https://signed/builds/BLD-1/school-system.zip''
   \<and> map_option downloadCount (findBuild ''BLD-1'' ex_completed_world) = Some 0
   \<and> map_option downloadCount
        (findBuild ''BLD-1'' (fst (downloadSystem ex_completed_world 2592000501 7 ''BLD-1''))) =
       Some 1"
  by (simp add: ex_defs expired_def downloadSystem_def incrementDownloadCount_def truthy_def
      store_defs)


end
